theory Spec2Isabelle
  imports Complex_Main
begin

section \<open>Values, errors and the scalar algebra\<close>

text \<open>
  A JavaScript value as it occurs inside the backing store of a DenseMatrix: a scalar
  of the element type, a (nested) array, or \<open>undefined\<close> (what a read past the end of
  an array or a read of a hole yields).
\<close>

datatype 's jsval = Scalar 's | Arr "'s jsval list" | Undefined

text \<open>
  The errors the code throws.  \<open>TypeError\<close> carries the message of the source where
  the source gives one; a TypeError raised by the engine itself (a property read on
  \<open>undefined\<close>, a call of something that is not a function) carries a description.
  \<open>DimensionError actual expected relation\<close> and \<open>IndexError index length\<close> follow the
  constructor calls of the source; the relation defaults to \<open>!=\<close>.
  \<open>OutsideModel\<close> is not an error of the source: it marks the points where the source
  hands a value that is not a scalar (an array or \<open>undefined\<close>) to an operation of the
  scalar algebra, reads a property of an opaque scalar or clones one, or enters the
  constructor's branch for a generic tensor; what happens there depends on the algebra,
  on the scalar's own class and on code that is not among the sources, none of which
  this theory fixes.  No theorem below is established through it.
\<close>

datatype error =
    TypeError string
  | DimensionError int int string
  | IndexError int int
  | ArithmeticError string
  | NotImplementedError string
  | InternalError string
  | Error string
  | OutsideModel

text \<open>
  A JavaScript number where the code uses one as a norm exponent or hands one to
  \<open>fromNumber\<close>: a finite value or one of the three special values.  Finite values
  are computed exactly; rounding is not modelled.
\<close>

datatype number = Finite real | PosInfinity | NegInfinity | NaN

text \<open>
  The scalar algebra object (\<open>scalarArithmetics\<close>; called \<open>A\<close> or \<open>S\<close> in the source).
  The three flags are the tests \<open>A[symbols.DivisionRing] === true\<close>,
  \<open>A[symbols.NormedDivisionRing] === true\<close> and \<open>A[symbols.Real] === true\<close>; the other
  fields are the methods the code calls: \<open>A.zero()\<close>, \<open>A.add\<close>, \<open>A.mul\<close>, \<open>A.div\<close>,
  \<open>A.pow\<close> (with a number as exponent), \<open>A.norm\<close>, \<open>A.gt\<close>, \<open>A.lt\<close>, \<open>A.fromNumber\<close>.
\<close>

record 's arithmetics =
  symDivisionRing :: bool
  symNormedDivisionRing :: bool
  symReal :: bool
  Azero :: 's
  Aadd :: "'s \<Rightarrow> 's \<Rightarrow> 's"
  Amul :: "'s \<Rightarrow> 's \<Rightarrow> 's"
  Adiv :: "'s \<Rightarrow> 's \<Rightarrow> 's"
  Apow :: "'s \<Rightarrow> number \<Rightarrow> 's"
  Anorm :: "'s \<Rightarrow> 's"
  Agt :: "'s \<Rightarrow> 's \<Rightarrow> bool"
  Alt :: "'s \<Rightarrow> 's \<Rightarrow> bool"
  AfromNumber :: "number \<Rightarrow> 's"

text \<open>
  What the constructor's probe of a leaf consults: \<open>typeof el === 'number'\<close>, the
  constant \<open>NumberArithmetics\<close> imported from \<open>./utils/numberArithmetic\<close>, and the
  property \<open>el[symbols.Arithmetics]\<close> of a scalar that is not a number.
\<close>

record 's runtime =
  typeofNumber :: "'s \<Rightarrow> bool"
  numberArithmetics :: "'s arithmetics"
  symArithmetics :: "'s \<Rightarrow> 's arithmetics"

text \<open>
  The private fields \<open>#data\<close>, \<open>#size\<close>, \<open>#datatype\<close> and the public field
  \<open>scalarArithmetics\<close> of a DenseMatrix.  \<open>#data\<close> is always an array, so the record
  holds its elements.  Numbers used as sizes and indices are integers here: the
  rejection of non-integers (\<open>isInteger\<close>) is a branch that no value of this type
  takes.
\<close>

record 's DenseMatrix =
  p_data :: "'s jsval list"
  p_size :: "int list"
  p_datatype :: "string option"
  scalarArithmetics :: "'s arithmetics"

text \<open>The object \<open>{mathjs, data, size, datatype}\<close> that \<open>toJSON\<close> produces.\<close>

record 's SerializedDenseMatrix =
  mathjs :: string
  j_data :: "'s jsval"
  j_size :: "int list"
  j_datatype :: "string option"

text \<open>
  The argument of the constructor: an array, an instance of DenseMatrix, or some other
  object (with the fields of a serialized matrix; an object that fails
  \<open>isSerializedDenseMatrix\<close> is taken not to be a tensor either).
\<close>

datatype 's ctor_arg =
    ArrayArg "'s jsval list"
  | InstanceArg "'s DenseMatrix"
  | ObjectArg "'s SerializedDenseMatrix"

section \<open>Array utilities (utils/array)\<close>

fun isArray :: "'s jsval \<Rightarrow> bool" where
  "isArray (Arr xs) = True"
| "isArray v = False"

text \<open>Runs \<open>f\<close> over the elements in order and stops at the first error.\<close>

primrec forEachE :: "('a \<Rightarrow> error + unit) \<Rightarrow> 'a list \<Rightarrow> error + unit" where
  "forEachE f [] = Inr ()"
| "forEachE f (x # xs) = (case f x of Inl e \<Rightarrow> Inl e | Inr u \<Rightarrow> forEachE f xs)"

text \<open>
  \<open>arraySize\<close>: \<open>while (Array.isArray(x)) { s.push(x.length); x = x[0] }\<close>; the read
  \<open>x[0]\<close> of an empty array is \<open>undefined\<close> and ends the loop.
\<close>

fun arraySize :: "'s jsval \<Rightarrow> int list" where
  "arraySize (Arr []) = [0]"
| "arraySize (Arr (x # xs)) = int (length (x # xs)) # arraySize x"
| "arraySize v = []"

text \<open>
  \<open>_validate (array, size, dim)\<close>.  The pair \<open>(size, dim)\<close> is carried as the part of
  \<open>size\<close> from position \<open>dim\<close> on, together with \<open>n = size.length\<close>; \<open>validate\<close> calls it
  with \<open>dim = 0\<close> on a non-empty \<open>size\<close>, and it calls itself only while
  \<open>dim < size.length - 1\<close>, so the part is never empty.
\<close>

fun validate_rec :: "'s jsval list \<Rightarrow> int list \<Rightarrow> int \<Rightarrow> error + unit" where
  "validate_rec array [] n = Inr ()"
| "validate_rec array (s # rest) n =
     (if int (length array) \<noteq> s then Inl (DimensionError (int (length array)) s ''!='')
      else if rest \<noteq> [] then
        forEachE (\<lambda>child. case child of
                      Arr c \<Rightarrow> validate_rec c rest n
                    | _ \<Rightarrow> Inl (DimensionError (n - 1) n ''<'')) array
      else
        forEachE (\<lambda>child. if isArray child then Inl (DimensionError (n + 1) n ''>'')
                           else Inr ()) array)"

definition validate :: "'s jsval list \<Rightarrow> int list \<Rightarrow> error + unit" where
  "validate array sz =
     (if sz = [] then Inl (DimensionError (int (length array)) 0 ''!='')
      else validate_rec array sz (int (length sz)))"

text \<open>
  \<open>validateIndex (index, length)\<close> on an integer index and a numeric length.
\<close>

definition validateIndex :: "int \<Rightarrow> int \<Rightarrow> error + unit" where
  "validateIndex index len =
     (if index < 0 \<or> index \<ge> len then Inl (IndexError index len) else Inr ())"

section \<open>Object utilities (utils/object)\<close>

text \<open>
  \<open>clone\<close>: a primitive (a number, \<open>undefined\<close>) is returned as it is, and an array is
  cloned element by element (\<open>x.map(value => clone(value))\<close>).  What the remaining
  branches do with a scalar that is no number (its own \<open>clone\<close> method, a \<open>Date\<close>, a
  \<open>RegExp\<close>, \<open>mapObject\<close>) depends on the scalar's class.
\<close>

fun clone :: "'s runtime \<Rightarrow> 's jsval \<Rightarrow> error + 's jsval"
  and clone_all :: "'s runtime \<Rightarrow> 's jsval list \<Rightarrow> error + 's jsval list" where
  "clone rt (Scalar x) = (if typeofNumber rt x then Inr (Scalar x) else Inl OutsideModel)"
| "clone rt Undefined = Inr Undefined"
| "clone rt (Arr xs) = (case clone_all rt xs of Inl e \<Rightarrow> Inl e | Inr ys \<Rightarrow> Inr (Arr ys))"
| "clone_all rt [] = Inr []"
| "clone_all rt (x # xs) =
     (case clone rt x of
        Inl e \<Rightarrow> Inl e
      | Inr y \<Rightarrow> (case clone_all rt xs of Inl e \<Rightarrow> Inl e | Inr ys \<Rightarrow> Inr (y # ys)))"

section \<open>DenseMatrix: construction\<close>

text \<open>
  \<open>preprocess\<close> replaces every DenseMatrix found inside the nested data by its
  array.  A \<open>jsval\<close> holds no DenseMatrix, so only the traversal of arrays remains.
\<close>

fun preprocess :: "'s jsval list \<Rightarrow> 's jsval list" where
  "preprocess [] = []"
| "preprocess (Arr c # rest) = Arr (preprocess c) # preprocess rest"
| "preprocess (elem # rest) = elem # preprocess rest"

text \<open>
  The probe at the end of the constructor:
  \<open>let el = this.#data[0]; while (Array.isArray(el)) el = el[0]\<close>.
  \<open>firstLeaf (Arr data)\<close> is the value of \<open>el\<close> after the loop.
\<close>

fun firstLeaf :: "'s jsval \<Rightarrow> 's jsval" where
  "firstLeaf (Arr []) = Undefined"
| "firstLeaf (Arr (x # xs)) = firstLeaf x"
| "firstLeaf v = v"

text \<open>
  \<open>if (typeof el === 'number') ... = NumberArithmetics else ... = el[symbols.Arithmetics]\<close>:
  the property read throws a TypeError when \<open>el\<close> is \<open>undefined\<close>.
\<close>

definition findScalarArithmetic :: "'s runtime \<Rightarrow> 's jsval list \<Rightarrow> error + 's arithmetics" where
  "findScalarArithmetic rt dat =
     (case firstLeaf (Arr dat) of
        Scalar el \<Rightarrow> Inr (if typeofNumber rt el then numberArithmetics rt
                          else symArithmetics rt el)
      | _ \<Rightarrow> Inl (TypeError ''Cannot read properties of undefined''))"

definition isSerializedDenseMatrix :: "'s SerializedDenseMatrix \<Rightarrow> bool" where
  "isSerializedDenseMatrix x \<longleftrightarrow> mathjs x = ''DenseMatrix'' \<and> isArray (j_data x)"

text \<open>
  The constructor.  In the array branch the \<open>datatype\<close> argument is not stored; in the
  branch of a serialized matrix \<open>datatype ?? data.datatype\<close> is.

  The branch guarded by \<open>isDenseMatrix(data)\<close> is taken by no argument: the guard reads
  \<open>data[symbols.Tensor]\<close>, which the class declares as a static member, so on an instance
  the read is \<open>undefined\<close> and the guard fails (and an object of another class that
  passed it would have no private field \<open>#data\<close> to read).  An instance fails
  \<open>isSerializedDenseMatrix\<close> too (it has no property \<open>mathjs\<close>) and so arrives at the
  \<open>isTensor\<close> test, which belongs to a package that is not among the sources, as is
  \<open>mapToMultidimArray\<close>, by which the branch behind that test builds the data.  This is
  the path of \<open>clone()\<close>, which is \<open>new DenseMatrix(this)\<close>; it is not modelled.
\<close>

definition newDenseMatrix ::
  "'s runtime \<Rightarrow> 's ctor_arg \<Rightarrow> string option \<Rightarrow> error + 's DenseMatrix" where
  "newDenseMatrix rt arg dt =
     (case (case arg of
              ArrayArg d \<Rightarrow>
                (let dat = preprocess d in Inr (dat, arraySize (Arr dat), None))
            | InstanceArg m \<Rightarrow> Inl OutsideModel
            | ObjectArg x \<Rightarrow>
                (if isSerializedDenseMatrix x then
                   (case clone rt (j_data x) of
                      Inl e \<Rightarrow> Inl e
                    | Inr (Arr dat) \<Rightarrow>
                        Inr (dat, j_size x,
                             (case dt of Some t \<Rightarrow> Some t | None \<Rightarrow> j_datatype x))
                    | Inr _ \<Rightarrow> Inl (TypeError ''Unsupported type of data''))
                 else Inl (TypeError ''Unsupported type of data''))) of
        Inl e \<Rightarrow> Inl e
      | Inr (dat, sz, dty) \<Rightarrow>
          (case findScalarArithmetic rt dat of
             Inl e \<Rightarrow> Inl e
           | Inr A \<Rightarrow> Inr \<lparr>p_data = dat, p_size = sz, p_datatype = dty,
                         scalarArithmetics = A\<rparr>))"


section \<open>DenseMatrix: element access\<close>

text \<open>The read \<open>xs[i]\<close> of an array: \<open>undefined\<close> outside the array.\<close>

definition elemAt :: "'s jsval list \<Rightarrow> int \<Rightarrow> 's jsval" where
  "elemAt xs i = (if 0 \<le> i \<and> i < int (length xs) then xs ! nat i else Undefined)"

text \<open>
  The second loop of \<open>get\<close>: one level of the nested structure per index component.
\<close>

fun get_walk :: "'s jsval \<Rightarrow> int list \<Rightarrow> error + 's jsval" where
  "get_walk dat [] =
     (if isArray dat then Inl (InternalError ''Expected scalar.'') else Inr dat)"
| "get_walk dat (indexI # rest) =
     (case dat of
        Arr xs \<Rightarrow>
          (case validateIndex indexI (int (length xs)) of
             Inl e \<Rightarrow> Inl e
           | Inr u \<Rightarrow> get_walk (elemAt xs indexI) rest)
      | _ \<Rightarrow> Inl (InternalError ''Expected array.''))"

definition get :: "'s DenseMatrix \<Rightarrow> int list \<Rightarrow> error + 's jsval" where
  "get m index =
     (if length index \<noteq> length (p_size m)
      then Inl (DimensionError (int (length index)) (int (length (p_size m))) ''!='')
      else (case forEachE (\<lambda>(i, s). validateIndex i s) (zip index (p_size m)) of
              Inl e \<Rightarrow> Inl e
            | Inr u \<Rightarrow> get_walk (Arr (p_data m)) index))"

section \<open>DenseMatrix: element access on arrays held by reference\<close>

text \<open>
  A JavaScript array is an object.  \<open>#data\<close> holds a reference to the outermost array,
  and an array that has another array as an element holds a reference to it.  The
  constructor's array branch stores the argument itself (\<open>preprocess\<close> returns the array
  it was given, and no copy is made), and \<open>set\<close> assigns into an array that it reaches
  from \<open>#data\<close>.  For \<open>set\<close> and the \<open>get\<close> after it the arrays are therefore kept in a
  store: an address names an array object, the store gives the elements of each, and
  an element is a scalar, a reference to an array, or \<open>undefined\<close>.
\<close>

type_synonym addr = nat

datatype 's cell = Val 's | Ref addr | Undef

type_synonym 's store = "addr \<Rightarrow> 's cell list"

text \<open>The fields \<open>#data\<close> and \<open>#size\<close> of a DenseMatrix whose arrays are in a store.\<close>

record StoredMatrix =
  r_data :: addr
  r_size :: "int list"

fun isRef :: "'s cell \<Rightarrow> bool" where
  "isRef (Ref a) = True"
| "isRef v = False"

definition cellAt :: "'s cell list \<Rightarrow> int \<Rightarrow> 's cell" where
  "cellAt xs i = (if 0 \<le> i \<and> i < int (length xs) then xs ! nat i else Undef)"

text \<open>
  The nested value that an element denotes, read to depth \<open>n\<close>: this is the argument
  that the constructor sees when it is given the array.
\<close>

fun contents :: "nat \<Rightarrow> 's store \<Rightarrow> 's cell \<Rightarrow> 's jsval" where
  "contents n h (Val s) = Scalar s"
| "contents n h Undef = Undefined"
| "contents 0 h (Ref a) = Undefined"
| "contents (Suc n) h (Ref a) = Arr (map (contents n h) (h a))"

text \<open>\<open>_validate\<close> and \<open>validate\<close> of utils/array, on arrays in a store.\<close>

fun validate_rec_st :: "'s store \<Rightarrow> addr \<Rightarrow> int list \<Rightarrow> int \<Rightarrow> error + unit" where
  "validate_rec_st h a [] n = Inr ()"
| "validate_rec_st h a (s # rest) n =
     (if int (length (h a)) \<noteq> s then Inl (DimensionError (int (length (h a))) s ''!='')
      else if rest \<noteq> [] then
        forEachE (\<lambda>child. case child of
                      Ref c \<Rightarrow> validate_rec_st h c rest n
                    | _ \<Rightarrow> Inl (DimensionError (n - 1) n ''<'')) (h a)
      else
        forEachE (\<lambda>child. if isRef child then Inl (DimensionError (n + 1) n ''>'')
                           else Inr ()) (h a))"

definition validate_st :: "'s store \<Rightarrow> addr \<Rightarrow> int list \<Rightarrow> error + unit" where
  "validate_st h a sz =
     (if sz = [] then Inl (DimensionError (int (length (h a))) 0 ''!='')
      else validate_rec_st h a sz (int (length sz)))"

text \<open>The method \<open>get\<close>, as above, on arrays in a store.\<close>

fun get_walk_st :: "'s store \<Rightarrow> 's cell \<Rightarrow> int list \<Rightarrow> error + 's cell" where
  "get_walk_st h dat [] =
     (if isRef dat then Inl (InternalError ''Expected scalar.'') else Inr dat)"
| "get_walk_st h dat (indexI # rest) =
     (case dat of
        Ref a \<Rightarrow>
          (case validateIndex indexI (int (length (h a))) of
             Inl e \<Rightarrow> Inl e
           | Inr u \<Rightarrow> get_walk_st h (cellAt (h a) indexI) rest)
      | _ \<Rightarrow> Inl (InternalError ''Expected array.''))"

definition get_st :: "'s store \<Rightarrow> StoredMatrix \<Rightarrow> int list \<Rightarrow> error + 's cell" where
  "get_st h m index =
     (if length index \<noteq> length (r_size m)
      then Inl (DimensionError (int (length index)) (int (length (r_size m))) ''!='')
      else (case forEachE (\<lambda>(i, s). validateIndex i s) (zip index (r_size m)) of
              Inl e \<Rightarrow> Inl e
            | Inr u \<Rightarrow> get_walk_st h (Ref (r_data m)) index))"

text \<open>
  The assignment \<open>arr[lastI] = value\<close>: inside the array it replaces the element,
  past the end it lengthens the array (the holes in between read as \<open>undefined\<close>), and
  a negative \<open>lastI\<close> names a property that is no element (as does the \<open>undefined\<close>
  that \<open>index[index.length - 1]\<close> is for an empty index).
\<close>

definition assignAt :: "'s cell list \<Rightarrow> int \<Rightarrow> 's cell \<Rightarrow> 's cell list" where
  "assignAt arr i v =
     (if i < 0 then arr
      else if i < int (length arr) then arr[nat i := v]
      else arr @ replicate (nat i - length arr) Undef @ [v])"

text \<open>
  Modelled from the spec: \<open>retrieveTopArrayByIndex\<close> of \<open>./utils/tensor\<close>, which is not
  among the sources.  The spec says of \<open>set\<close> that the index may be longer than the
  rank and that the value is written "at the computed terminal slot"; so the helper
  walks the nested structure by every component but the last and returns the array
  that holds the terminal slot.  A step that does not land on an array inside the
  current one fails.  What it returns is the array object itself: \<open>set\<close> assigns to no
  field of the matrix, so an assignment into a copy would leave the matrix as it was.
\<close>

fun retrieveTopArrayByIndex :: "'s store \<Rightarrow> addr \<Rightarrow> int list \<Rightarrow> error + addr" where
  "retrieveTopArrayByIndex h arr [] = Inr arr"
| "retrieveTopArrayByIndex h arr [lastI] = Inr arr"
| "retrieveTopArrayByIndex h arr (i # rest) =
     (case cellAt (h arr) i of
        Ref c \<Rightarrow> retrieveTopArrayByIndex h c rest
      | _ \<Rightarrow> Inl (TypeError ''Cannot read properties of undefined''))"

text \<open>
  The method \<open>set\<close>.  It changes one array of the store and no field of the matrix;
  the result is the store after the call.
\<close>

definition set_dm :: "'s store \<Rightarrow> StoredMatrix \<Rightarrow> int list \<Rightarrow> 's \<Rightarrow> error + 's store" where
  "set_dm h m index v =
     (if length index < length (r_size m)
      then Inl (DimensionError (int (length index)) (int (length (r_size m))) ''<'')
      else if index = [] then Inr h
      else (case retrieveTopArrayByIndex h (r_data m) index of
              Inl e \<Rightarrow> Inl e
            | Inr arr \<Rightarrow> Inr (h(arr := assignAt (h arr) (last index) (Val v)))))"

section \<open>DenseMatrix: traversal\<close>

primrec mapE :: "('a \<Rightarrow> error + 'b) \<Rightarrow> 'a list \<Rightarrow> error + 'b list" where
  "mapE f [] = Inr []"
| "mapE f (x # xs) =
     (case f x of
        Inl e \<Rightarrow> Inl e
      | Inr y \<Rightarrow> (case mapE f xs of Inl e \<Rightarrow> Inl e | Inr ys \<Rightarrow> Inr (y # ys)))"

primrec foldlE :: "('b \<Rightarrow> 'a \<Rightarrow> error + 'b) \<Rightarrow> 'a list \<Rightarrow> 'b \<Rightarrow> error + 'b" where
  "foldlE f [] r = Inr r"
| "foldlE f (x # xs) r = (case f r x of Inl e \<Rightarrow> Inl e | Inr r' \<Rightarrow> foldlE f xs r')"

text \<open>
  The local function \<open>recurse\<close> of \<open>map\<close>: an array is mapped child by child, with the
  child's position appended to the index; anything else goes to the callback.  The
  callback's third argument (the matrix itself) is left to the callback's closure.
\<close>

fun recurse_map ::
    "('s jsval \<Rightarrow> int list \<Rightarrow> error + 's jsval) \<Rightarrow> 's jsval \<Rightarrow> int list \<Rightarrow> error + 's jsval"
  and recurse_map_from ::
    "('s jsval \<Rightarrow> int list \<Rightarrow> error + 's jsval) \<Rightarrow> 's jsval list \<Rightarrow> int \<Rightarrow> int list
       \<Rightarrow> error + 's jsval list" where
  "recurse_map callback (Arr xs) index =
     (case recurse_map_from callback xs 0 index of
        Inl e \<Rightarrow> Inl e
      | Inr ys \<Rightarrow> Inr (Arr ys))"
| "recurse_map callback (Scalar s) index = callback (Scalar s) index"
| "recurse_map callback Undefined index = callback Undefined index"
| "recurse_map_from callback [] i index = Inr []"
| "recurse_map_from callback (child # rest) i index =
     (case recurse_map callback child (index @ [i]) of
        Inl e \<Rightarrow> Inl e
      | Inr y \<Rightarrow>
          (case recurse_map_from callback rest (i + 1) index of
             Inl e \<Rightarrow> Inl e
           | Inr ys \<Rightarrow> Inr (y # ys)))"

definition map_dm ::
  "'s runtime \<Rightarrow> 's DenseMatrix \<Rightarrow> ('s jsval \<Rightarrow> int list \<Rightarrow> error + 's jsval)
     \<Rightarrow> error + 's DenseMatrix" where
  "map_dm rt m callback =
     (case recurse_map_from callback (p_data m) 0 [] of
        Inl e \<Rightarrow> Inl e
      | Inr dat \<Rightarrow> newDenseMatrix rt (ArrayArg dat) None)"

text \<open>
  The iterator: the \<open>{value, index}\<close> pairs of all values that are not arrays, depth
  first.
\<close>

fun recurse_iter :: "'s jsval \<Rightarrow> int list \<Rightarrow> ('s jsval \<times> int list) list"
  and recurse_iter_from :: "'s jsval list \<Rightarrow> int \<Rightarrow> int list \<Rightarrow> ('s jsval \<times> int list) list" where
  "recurse_iter (Arr xs) index = recurse_iter_from xs 0 index"
| "recurse_iter (Scalar s) index = [(Scalar s, index)]"
| "recurse_iter Undefined index = [(Undefined, index)]"
| "recurse_iter_from [] i index = []"
| "recurse_iter_from (child # rest) i index =
     recurse_iter child (index @ [i]) @ recurse_iter_from rest (i + 1) index"

definition iterator :: "'s DenseMatrix \<Rightarrow> ('s jsval \<times> int list) list" where
  "iterator m = recurse_iter (Arr (p_data m)) []"

text \<open>A value handed to an operation of the scalar algebra.\<close>

definition asScalar :: "'s jsval \<Rightarrow> error + 's" where
  "asScalar v = (case v of Scalar s \<Rightarrow> Inr s | _ \<Rightarrow> Inl OutsideModel)"

text \<open>The reads \<open>v[i]\<close> and \<open>v.length\<close> of a value.\<close>

definition readAt :: "'s jsval \<Rightarrow> int \<Rightarrow> error + 's jsval" where
  "readAt v i =
     (case v of
        Arr xs \<Rightarrow> Inr (elemAt xs i)
      | Undefined \<Rightarrow> Inl (TypeError ''Cannot read properties of undefined'')
      | Scalar s \<Rightarrow> Inl OutsideModel)"

definition readLength :: "'s jsval \<Rightarrow> error + nat" where
  "readLength v =
     (case v of
        Arr xs \<Rightarrow> Inr (length xs)
      | Undefined \<Rightarrow> Inl (TypeError ''Cannot read properties of undefined'')
      | Scalar s \<Rightarrow> Inl OutsideModel)"

definition rows :: "'s runtime \<Rightarrow> 's DenseMatrix \<Rightarrow> error + 's DenseMatrix list" where
  "rows rt m =
     (if length (p_size m) \<noteq> 2
      then Inl (TypeError ''Rows can only be returned for a 2D matrix.'')
      else mapE (\<lambda>row. newDenseMatrix rt (ArrayArg [row]) None) (p_data m))"

definition columns :: "'s runtime \<Rightarrow> 's DenseMatrix \<Rightarrow> error + 's DenseMatrix list" where
  "columns rt m =
     (if length (p_size m) \<noteq> 2
      then Inl (TypeError ''Rows can only be returned for a 2D matrix.'')
      else mapE (\<lambda>i. case mapE (\<lambda>row. case readAt row (int i) of
                                          Inl e \<Rightarrow> Inl e
                                        | Inr x \<Rightarrow> Inr (Arr [x])) (p_data m) of
                        Inl e \<Rightarrow> Inl e
                      | Inr col \<Rightarrow> newDenseMatrix rt (ArrayArg col) None)
             [0 ..< nat (p_size m ! 1)])"


section \<open>DenseMatrix: matrix product and pointwise division\<close>

text \<open>
  One step of the innermost loop of \<open>mul\<close>:
  \<open>r = S.add(r, S.mul(a[i][k], b[k][j]))\<close>.
\<close>

definition mul_step ::
  "'s arithmetics \<Rightarrow> 's jsval list \<Rightarrow> 's jsval list \<Rightarrow> nat \<Rightarrow> nat \<Rightarrow> 's \<Rightarrow> nat \<Rightarrow> error + 's" where
  "mul_step S a b i j r k =
     (case readAt (elemAt a (int i)) (int k) of
        Inl e \<Rightarrow> Inl e
      | Inr x \<Rightarrow>
          (case readAt (elemAt b (int k)) (int j) of
             Inl e \<Rightarrow> Inl e
           | Inr y \<Rightarrow>
               (case asScalar x of
                  Inl e \<Rightarrow> Inl e
                | Inr sx \<Rightarrow>
                    (case asScalar y of
                       Inl e \<Rightarrow> Inl e
                     | Inr sy \<Rightarrow> Inr (Aadd S r (Amul S sx sy))))))"

definition mul :: "'s runtime \<Rightarrow> 's DenseMatrix \<Rightarrow> 's DenseMatrix \<Rightarrow> error + 's DenseMatrix" where
  "mul rt this m =
     (if length (p_size this) \<noteq> 2
      then Inl (DimensionError (int (length (p_size this))) 2 ''!='')
      else if length (p_size m) \<noteq> 2
      then Inl (DimensionError (int (length (p_size m))) 2 ''!='')
      else
        (let S = scalarArithmetics this; a = p_data this; b = p_data m; A = length a in
         case readLength (elemAt a 0) of
           Inl e \<Rightarrow> Inl e
         | Inr B \<Rightarrow>
             (case readLength (elemAt b 0) of
                Inl e \<Rightarrow> Inl e
              | Inr C \<Rightarrow>
                  if length b \<noteq> B
                  then Inl (DimensionError (int (length b)) (int B) ''!='')
                  else
                    (case mapE (\<lambda>i. mapE (\<lambda>j. foldlE (mul_step S a b i j) [0 ..< B] (Azero S))
                                        [0 ..< C])
                               [0 ..< A] of
                       Inl e \<Rightarrow> Inl e
                     | Inr c \<Rightarrow>
                         newDenseMatrix rt (ArrayArg (map (\<lambda>row. Arr (map Scalar row)) c))
                           None))))"

text \<open>
  The static method \<open>dotDiv (a, b)\<close>.  The result is a pair: the state of \<open>a\<close> when the
  call ends, by return or by throw, and the outcome.  \<open>dotDiv\<close> assigns to no field of
  \<open>a\<close>, and \<open>map\<close> writes into no array of \<open>a\<close>: it builds its result with \<open>value.map\<close>,
  in new arrays, and it is on those that the constructor works.
\<close>

definition dotDiv ::
  "'s runtime \<Rightarrow> 's DenseMatrix \<Rightarrow> 's \<Rightarrow> 's DenseMatrix \<times> (error + 's DenseMatrix)" where
  "dotDiv rt a b =
     (let A = scalarArithmetics a in
      if \<not> symDivisionRing A then (a, Inl (ArithmeticError ''DivisionRing''))
      else (a, map_dm rt a (\<lambda>el index. case asScalar el of
                                          Inl e \<Rightarrow> Inl e
                                        | Inr x \<Rightarrow> Inr (Scalar (Adiv A x b)))))"

section \<open>Resizing\<close>

text \<open>
  \<open>_resize (array, size, dim, defaultValue)\<close>, with \<open>(size, dim)\<close> carried as the part of
  \<open>size\<close> from \<open>dim\<close> on.  The entries kept are the first \<open>min oldLen newLen\<close>; in the
  last dimension each of them is stripped of its nesting by the same loop as in the
  constructor's probe (\<open>while (Array.isArray(array[i])) array[i] = array[i][0]\<close>).
  Array lengths are taken to stay below the engine's limit of \<open>2^32 - 1\<close>.
\<close>

fun resize_rec :: "'s jsval list \<Rightarrow> nat list \<Rightarrow> 's jsval \<Rightarrow> 's jsval list" where
  "resize_rec array [] defaultValue = array"
| "resize_rec array [newLen] defaultValue =
     map firstLeaf (take newLen array) @ replicate (newLen - length array) defaultValue"
| "resize_rec array (newLen # rest) defaultValue =
     map (\<lambda>elem. Arr (resize_rec (case elem of Arr c \<Rightarrow> c | _ \<Rightarrow> [elem]) rest defaultValue))
         (take newLen array)
     @ replicate (newLen - length array) (Arr (resize_rec [] rest defaultValue))"

text \<open>
  \<open>resize (array, size, defaultValue)\<close> of utils/array: the checks, then the
  recursive resize.  The default value is a scalar, so the replacement of an
  \<open>undefined\<close> default by \<open>0\<close> does not arise.
\<close>

definition resize :: "'s jsval list \<Rightarrow> int list \<Rightarrow> 's \<Rightarrow> error + 's jsval list" where
  "resize array sz defaultValue =
     (if sz = [] then Inl (Error ''Resizing to scalar is not supported'')
      else if list_ex (\<lambda>value. value < 0) sz
      then Inl (TypeError ''Invalid size, must contain positive integers'')
      else Inr (resize_rec array (map nat sz) (Scalar defaultValue)))"

text \<open>
  The method \<open>resize (size, defaultValue, copy)\<close>.  It assigns fields of \<open>this\<close> (or of
  the clone), so the result is a pair: the state of \<open>this\<close> when the call ends, by
  return or by throw, and the outcome.  The statements are, in this order,
  \<open>matrix.#size = [...size]\<close> and \<open>matrix.#data = resize(matrix.#data, matrix.#size, defaultValue)\<close>.
  With \<open>copy\<close> the matrix is \<open>this.clone()\<close>, which is the constructor applied to the
  instance.
\<close>

definition DenseMatrix_resize ::
  "'s runtime \<Rightarrow> 's DenseMatrix \<Rightarrow> int list \<Rightarrow> 's \<Rightarrow> bool
     \<Rightarrow> 's DenseMatrix \<times> (error + 's DenseMatrix)" where
  "DenseMatrix_resize rt this sz defaultValue copy =
     (if copy then
        (case newDenseMatrix rt (InstanceArg this) None of
           Inl e \<Rightarrow> (this, Inl e)
         | Inr matrix \<Rightarrow>
             (let matrix1 = matrix\<lparr>p_size := sz\<rparr> in
              case resize (p_data matrix1) (p_size matrix1) defaultValue of
                Inl e \<Rightarrow> (this, Inl e)
              | Inr d \<Rightarrow> (this, Inr (matrix1\<lparr>p_data := d\<rparr>))))
      else
        (let matrix1 = this\<lparr>p_size := sz\<rparr> in
         case resize (p_data matrix1) (p_size matrix1) defaultValue of
           Inl e \<Rightarrow> (matrix1, Inl e)
         | Inr d \<Rightarrow> (matrix1\<lparr>p_data := d\<rparr>, Inr (matrix1\<lparr>p_data := d\<rparr>))))"

section \<open>Serialization\<close>

definition toJSON :: "'s DenseMatrix \<Rightarrow> 's SerializedDenseMatrix" where
  "toJSON m = \<lparr>mathjs = ''DenseMatrix'', j_data = Arr (p_data m), j_size = p_size m,
               j_datatype = p_datatype m\<rparr>"

definition fromJSON :: "'s runtime \<Rightarrow> 's SerializedDenseMatrix \<Rightarrow> error + 's DenseMatrix" where
  "fromJSON rt json =
     (if \<not> isSerializedDenseMatrix json
      then Inl (TypeError ''The object is not a serialized DenseMatrix.'')
      else newDenseMatrix rt (ObjectArg json) None)"

section \<open>Norms (norm.ts)\<close>

text \<open>
  The argument \<open>p\<close> of \<open>norm\<close>: a number, one of the three strings, or absent; and what
  is left of it for \<open>vectorNorm\<close> and \<open>matrixNorm\<close>.
\<close>

datatype pValue = P number | P_neg_inf | P_inf | P_fro | P_undefined

datatype pNorm = N number | N_neg_inf | N_inf

text \<open>The quotient \<open>1/p\<close> of numbers (no negative zero).\<close>

fun reciprocal :: "number \<Rightarrow> number" where
  "reciprocal (Finite x) = (if x = 0 then PosInfinity else Finite (1 / x))"
| "reciprocal PosInfinity = Finite 0"
| "reciprocal NegInfinity = Finite 0"
| "reciprocal NaN = NaN"

text \<open>The loop \<open>for (const { value } of v)\<close> with a running value \<open>r\<close>.\<close>

definition forValues ::
  "'s DenseMatrix \<Rightarrow> ('s \<Rightarrow> 's \<Rightarrow> 's) \<Rightarrow> 's \<Rightarrow> error + 's" where
  "forValues v body r0 =
     foldlE (\<lambda>r value. case asScalar value of Inl e \<Rightarrow> Inl e | Inr x \<Rightarrow> Inr (body r x))
            (map fst (iterator v)) r0"

text \<open>The three cases of the \<open>switch\<close> in \<open>vectorNorm\<close>.\<close>

definition vectorNorm_inf :: "'s DenseMatrix \<Rightarrow> error + 's" where
  "vectorNorm_inf v =
     (let A = scalarArithmetics v in
      if \<not> symReal A then Inl (ArithmeticError ''Real'')
      else forValues v (\<lambda>r value. let x = Anorm A value in if Agt A x r then x else r)
             (Azero A))"

definition vectorNorm_neg_inf :: "'s DenseMatrix \<Rightarrow> error + 's" where
  "vectorNorm_neg_inf v =
     (let A = scalarArithmetics v in
      if \<not> symReal A then Inl (ArithmeticError ''Real'')
      else forValues v (\<lambda>r value. let x = Anorm A value in if Alt A x r then x else r)
             (Azero A))"

definition vectorNorm_p :: "'s DenseMatrix \<Rightarrow> number \<Rightarrow> error + 's" where
  "vectorNorm_p v p =
     (let A = scalarArithmetics v in
      if \<not> symNormedDivisionRing A then Inl (ArithmeticError ''NormedDivisionRing'')
      else if p = Finite 0 then Inr (AfromNumber A PosInfinity)
      else (case forValues v (\<lambda>r value. Aadd A r (Apow A (Anorm A value) p)) (Azero A) of
              Inl e \<Rightarrow> Inl e
            | Inr r \<Rightarrow> Inr (Apow A r (reciprocal p))))"

definition vectorNorm :: "'s DenseMatrix \<Rightarrow> pNorm \<Rightarrow> error + 's" where
  "vectorNorm v p =
     (case p of
        N_inf \<Rightarrow> vectorNorm_inf v
      | N_neg_inf \<Rightarrow> vectorNorm_neg_inf v
      | N q \<Rightarrow>
          (if q = PosInfinity then vectorNorm_inf v
           else if q = NegInfinity then vectorNorm_neg_inf v
           else vectorNorm_p v q))"

text \<open>
  \<open>col.map(A.norm).reduce(A.add)\<close> in \<open>matrixNorm\<close>: \<open>col\<close> is an element of
  \<open>M.columns()\<close> (or \<open>M.rows()\<close>), a DenseMatrix, whatever the cast to \<open>Scalar[][]\<close>
  says; so \<open>col.map\<close> is the method \<open>map\<close> of DenseMatrix and returns a DenseMatrix.
  The class declares no member \<open>reduce\<close>: \<open>.reduce\<close> is \<open>undefined\<close>, and calling it
  throws a TypeError.
\<close>

definition DenseMatrix_reduce :: "'s DenseMatrix \<Rightarrow> ('s \<Rightarrow> 's \<Rightarrow> 's) \<Rightarrow> error + 's" where
  "DenseMatrix_reduce m f = Inl (TypeError ''col.map(...).reduce is not a function'')"

definition fiberSum ::
  "'s runtime \<Rightarrow> 's arithmetics \<Rightarrow> 's DenseMatrix \<Rightarrow> error + 's" where
  "fiberSum rt A col =
     (case map_dm rt col (\<lambda>value index. case asScalar value of
                                           Inl e \<Rightarrow> Inl e
                                         | Inr x \<Rightarrow> Inr (Scalar (Anorm A x))) of
        Inl e \<Rightarrow> Inl e
      | Inr mapped \<Rightarrow> DenseMatrix_reduce mapped (Aadd A))"

definition largestSum ::
  "'s runtime \<Rightarrow> 's arithmetics \<Rightarrow> 's DenseMatrix list \<Rightarrow> error + 's" where
  "largestSum rt A fibers =
     foldlE (\<lambda>r col. case fiberSum rt A col of
                       Inl e \<Rightarrow> Inl e
                     | Inr colSum \<Rightarrow> Inr (if Agt A colSum r then colSum else r))
            fibers (Azero A)"

definition matrixNorm :: "'s runtime \<Rightarrow> 's DenseMatrix \<Rightarrow> pNorm \<Rightarrow> error + 's" where
  "matrixNorm rt M p =
     (let A = scalarArithmetics M in
      if p = N (Finite 1) then
        (if \<not> symReal A then Inl (ArithmeticError ''Real'')
         else (case columns rt M of Inl e \<Rightarrow> Inl e | Inr cols \<Rightarrow> largestSum rt A cols))
      else if p = N PosInfinity \<or> p = N_inf then
        (if \<not> symReal A then Inl (ArithmeticError ''Real'')
         else (case rows rt M of Inl e \<Rightarrow> Inl e | Inr rs \<Rightarrow> largestSum rt A rs))
      else if p = N_neg_inf
      then Inl (TypeError ''L^-inf norm is not defined for square matrices'')
      else Inl (NotImplementedError ''L^p norm for square matrices''))"

definition norm_dm :: "'s runtime \<Rightarrow> 's DenseMatrix \<Rightarrow> pValue \<Rightarrow> error + 's" where
  "norm_dm rt M p =
     (case p of
        P q \<Rightarrow>
          (if length (p_size M) = 1 then vectorNorm M (N q)
           else if length (p_size M) = 2 then matrixNorm rt M (N q)
           else Inl (DimensionError (int (length (p_size M))) 2 ''>''))
      | P_neg_inf \<Rightarrow>
          (if length (p_size M) = 1 then vectorNorm M N_neg_inf
           else if length (p_size M) = 2 then matrixNorm rt M N_neg_inf
           else Inl (DimensionError (int (length (p_size M))) 2 ''>''))
      | P_inf \<Rightarrow>
          (if length (p_size M) = 1 then vectorNorm M N_inf
           else if length (p_size M) = 2 then matrixNorm rt M N_inf
           else Inl (DimensionError (int (length (p_size M))) 2 ''>''))
      | _ \<Rightarrow>
          (let A = scalarArithmetics M in
           if \<not> symNormedDivisionRing A then Inl (ArithmeticError ''NormedDivisionRing'')
           else (case forValues M (\<lambda>r value. Aadd A r (Apow A (Anorm A value) (Finite 2)))
                        (Azero A) of
                   Inl e \<Rightarrow> Inl e
                 | Inr r \<Rightarrow> Inr (Apow A r (Finite (1 / 2))))))"

section \<open>The numeric algebra\<close>

text \<open>
  Addition, multiplication, division, magnitude and order of numbers.  The type has
  one zero: where the code divides by a zero that is negative, its result has the sign
  opposite to the one given here.
\<close>

fun num_add :: "number \<Rightarrow> number \<Rightarrow> number" where
  "num_add (Finite a) (Finite b) = Finite (a + b)"
| "num_add NaN y = NaN"
| "num_add x NaN = NaN"
| "num_add PosInfinity NegInfinity = NaN"
| "num_add NegInfinity PosInfinity = NaN"
| "num_add PosInfinity y = PosInfinity"
| "num_add x PosInfinity = PosInfinity"
| "num_add NegInfinity y = NegInfinity"
| "num_add x NegInfinity = NegInfinity"

fun num_sign :: "number \<Rightarrow> int" where
  "num_sign (Finite a) = (if a < 0 then - 1 else if a = 0 then 0 else 1)"
| "num_sign PosInfinity = 1"
| "num_sign NegInfinity = - 1"
| "num_sign NaN = 0"

definition signed_infinity :: "int \<Rightarrow> number" where
  "signed_infinity s = (if s = 0 then NaN else if s < 0 then NegInfinity else PosInfinity)"

fun num_mul :: "number \<Rightarrow> number \<Rightarrow> number" where
  "num_mul (Finite a) (Finite b) = Finite (a * b)"
| "num_mul NaN y = NaN"
| "num_mul x NaN = NaN"
| "num_mul x y = signed_infinity (num_sign x * num_sign y)"

fun num_div :: "number \<Rightarrow> number \<Rightarrow> number" where
  "num_div (Finite a) (Finite b) =
     (if b = 0 then signed_infinity (num_sign (Finite a)) else Finite (a / b))"
| "num_div NaN y = NaN"
| "num_div x NaN = NaN"
| "num_div (Finite a) y = Finite 0"
| "num_div x (Finite b) = signed_infinity (num_sign x * (if b < 0 then - 1 else 1))"
| "num_div x y = NaN"

fun num_abs :: "number \<Rightarrow> number" where
  "num_abs (Finite a) = Finite \<bar>a\<bar>"
| "num_abs PosInfinity = PosInfinity"
| "num_abs NegInfinity = PosInfinity"
| "num_abs NaN = NaN"

fun num_lt :: "number \<Rightarrow> number \<Rightarrow> bool" where
  "num_lt (Finite a) (Finite b) = (a < b)"
| "num_lt NaN y = False"
| "num_lt x NaN = False"
| "num_lt x NegInfinity = False"
| "num_lt PosInfinity y = False"
| "num_lt x y = True"

definition num_gt :: "number \<Rightarrow> number \<Rightarrow> bool" where
  "num_gt x y = num_lt y x"

text \<open>
  Exponentiation of numbers, by the cases of the language's \<open>Math.pow\<close>: exact on
  finite operands, with a negative base admitted for integer exponents only.
\<close>

fun num_pow :: "number \<Rightarrow> number \<Rightarrow> number" where
  "num_pow x NaN = NaN"
| "num_pow x (Finite b) =
     (if b = 0 then Finite 1
      else case x of
        NaN \<Rightarrow> NaN
      | PosInfinity \<Rightarrow> (if b > 0 then PosInfinity else Finite 0)
      | NegInfinity \<Rightarrow>
          (if b > 0 then (if b = of_int \<lfloor>b\<rfloor> \<and> odd \<lfloor>b\<rfloor> then NegInfinity else PosInfinity)
           else Finite 0)
      | Finite a \<Rightarrow>
          (if a > 0 then Finite (a powr b)
           else if a = 0 then (if b > 0 then Finite 0 else PosInfinity)
           else if b = of_int \<lfloor>b\<rfloor> then Finite (a powi \<lfloor>b\<rfloor>)
           else NaN))"
| "num_pow x PosInfinity =
     (case num_abs x of
        Finite a \<Rightarrow> (if a > 1 then PosInfinity else if a < 1 then Finite 0 else NaN)
      | PosInfinity \<Rightarrow> PosInfinity
      | _ \<Rightarrow> NaN)"
| "num_pow x NegInfinity =
     (case num_abs x of
        Finite a \<Rightarrow> (if a > 1 then Finite 0 else if a < 1 then PosInfinity else NaN)
      | PosInfinity \<Rightarrow> Finite 0
      | _ \<Rightarrow> NaN)"

text \<open>
  Modelled from the spec: \<open>NumberArithmetics\<close> of \<open>./utils/numberArithmetic\<close>, which is
  not among the sources.  The spec calls it the default numeric algebra, used when
  the probed leaf is a primitive number, "implementing all four capabilities": Ring
  (zero, addition, multiplication, exponentiation), DivisionRing (division),
  NormedDivisionRing (a \<open>norm\<close> mapping a scalar to its magnitude) and Real (\<open>gt\<close>,
  \<open>lt\<close>, \<open>from_number\<close>).
\<close>

definition NumberArithmetics :: "number arithmetics" where
  "NumberArithmetics =
     \<lparr>symDivisionRing = True, symNormedDivisionRing = True, symReal = True,
      Azero = Finite 0, Aadd = num_add, Amul = num_mul, Adiv = num_div, Apow = num_pow,
      Anorm = num_abs, Agt = num_gt, Alt = num_lt, AfromNumber = (\<lambda>x. x)\<rparr>"

text \<open>
  The runtime in which every scalar is a primitive number (so that the property
  \<open>el[symbols.Arithmetics]\<close> is never read).
\<close>

definition numberRuntime :: "number runtime" where
  "numberRuntime =
     \<lparr>typeofNumber = (\<lambda>el. True), numberArithmetics = NumberArithmetics,
      symArithmetics = (\<lambda>el. NumberArithmetics)\<rparr>"


section \<open>Notions used in the statements\<close>

text \<open>
  The lengths of the arrays found at nesting depth \<open>k\<close> of a value (depth \<open>0\<close> is the
  value itself), in traversal order.
\<close>

fun lengthsAt :: "nat \<Rightarrow> 's jsval \<Rightarrow> nat list" where
  "lengthsAt 0 (Arr xs) = [length xs]"
| "lengthsAt (Suc d) (Arr xs) = concat (map (lengthsAt d) xs)"
| "lengthsAt d v = []"

text \<open>
  A function applied to every scalar of a nested value, and the values in which
  what is not an array is a scalar.
\<close>

fun mapScalars :: "('s \<Rightarrow> 's) \<Rightarrow> 's jsval \<Rightarrow> 's jsval" where
  "mapScalars f (Scalar s) = Scalar (f s)"
| "mapScalars f (Arr xs) = Arr (map (mapScalars f) xs)"
| "mapScalars f Undefined = Undefined"

fun allScalars :: "'s jsval \<Rightarrow> bool" where
  "allScalars (Scalar s) = True"
| "allScalars (Arr xs) = (\<forall>x\<in>set xs. allScalars x)"
| "allScalars Undefined = False"

text \<open>
  An index that is valid for a shape: as long as the shape, each component a
  non-negative integer below the shape's entry.
\<close>

definition validIndex :: "int list \<Rightarrow> int list \<Rightarrow> bool" where
  "validIndex index sz \<longleftrightarrow> list_all2 (\<lambda>i n. 0 \<le> i \<and> i < n) index sz"

text \<open>
  The backing array of a matrix given by its rows of scalars, and the matrix product
  in the words of the spec: the entry at \<open>[i][j]\<close> is the sum over \<open>k\<close> of
  \<open>a[i][k] * b[k][j]\<close>, accumulated from the algebra's zero with its \<open>add\<close> and \<open>mul\<close>;
  \<open>C\<close> is the number of columns of the second factor.
\<close>

definition ofRows :: "'s list list \<Rightarrow> 's jsval list" where
  "ofRows xs = map (\<lambda>row. Arr (map Scalar row)) xs"

definition productEntry ::
  "'s arithmetics \<Rightarrow> 's list list \<Rightarrow> 's list list \<Rightarrow> nat \<Rightarrow> nat \<Rightarrow> 's" where
  "productEntry S xs ys i j =
     foldl (\<lambda>r k. Aadd S r (Amul S (xs ! i ! k) (ys ! k ! j))) (Azero S) [0 ..< length ys]"

definition matrixProduct ::
  "'s arithmetics \<Rightarrow> 's list list \<Rightarrow> 's list list \<Rightarrow> nat \<Rightarrow> 's list list" where
  "matrixProduct S xs ys C =
     map (\<lambda>i. map (\<lambda>j. productEntry S xs ys i j) [0 ..< C]) [0 ..< length xs]"

section \<open>Example tensors\<close>

text \<open>The vectors \<open>[3, -4]\<close> and \<open>[0, 0]\<close> and the matrix \<open>[[1, -2], [-3, 4]]\<close> of numbers.\<close>

definition vec34 :: "number DenseMatrix" where
  "vec34 = \<lparr>p_data = [Scalar (Finite 3), Scalar (Finite (- 4))], p_size = [2],
            p_datatype = None, scalarArithmetics = NumberArithmetics\<rparr>"

definition vec00 :: "number DenseMatrix" where
  "vec00 = \<lparr>p_data = [Scalar (Finite 0), Scalar (Finite 0)], p_size = [2],
            p_datatype = None, scalarArithmetics = NumberArithmetics\<rparr>"

definition mat1234 :: "number DenseMatrix" where
  "mat1234 = \<lparr>p_data = [Arr [Scalar (Finite 1), Scalar (Finite (- 2))],
                        Arr [Scalar (Finite (- 3)), Scalar (Finite 4)]],
              p_size = [2, 2], p_datatype = None, scalarArithmetics = NumberArithmetics\<rparr>"

text \<open>
  The nested array \<open>[[1, 2], [3]]\<close>, and the empty vector that \<open>resize([0])\<close> makes of
  \<open>[3, -4]\<close>.
\<close>

definition ragged12 :: "number jsval list" where
  "ragged12 = [Arr [Scalar (Finite 1), Scalar (Finite 2)], Arr [Scalar (Finite 3)]]"

definition empty0 :: "number DenseMatrix" where
  "empty0 = \<lparr>p_data = [], p_size = [0], p_datatype = None,
             scalarArithmetics = NumberArithmetics\<rparr>"

text \<open>
  The \<open>1 \<times> 2\<close> matrix \<open>[[1, 2]]\<close>, and what \<open>resize([0, 2])\<close> and \<open>resize([2, 0])\<close>
  make of a \<open>2 \<times> 2\<close> matrix.
\<close>

definition row12 :: "number DenseMatrix" where
  "row12 = \<lparr>p_data = [Arr [Scalar (Finite 1), Scalar (Finite 2)]], p_size = [1, 2],
            p_datatype = None, scalarArithmetics = NumberArithmetics\<rparr>"

definition emptyRows :: "number DenseMatrix" where
  "emptyRows = \<lparr>p_data = [], p_size = [0, 2], p_datatype = None,
                scalarArithmetics = NumberArithmetics\<rparr>"

definition zeroCols :: "number DenseMatrix" where
  "zeroCols = \<lparr>p_data = [Arr [], Arr []], p_size = [2, 0], p_datatype = None,
               scalarArithmetics = NumberArithmetics\<rparr>"

text \<open>
  Three stores for a matrix of shape \<open>2 \<times> 2\<close> whose outer array is at address \<open>0\<close>:
  \<open>[[1, -2], [-3, 4]]\<close> with two row objects; \<open>const r = [0, 0]\<close> given as \<open>[r, r]\<close>, one
  row object at both places; and \<open>[[1, 2], []]\<close>.
\<close>

definition stored22 :: StoredMatrix where
  "stored22 = \<lparr>r_data = 0, r_size = [2, 2]\<rparr>"

definition distinctRows :: "number store" where
  "distinctRows = (\<lambda>a. if a = 0 then [Ref 1, Ref 2]
                        else if a = 1 then [Val (Finite 1), Val (Finite (- 2))]
                        else if a = 2 then [Val (Finite (- 3)), Val (Finite 4)]
                        else [])"

definition sharedRow :: "number store" where
  "sharedRow = (\<lambda>a. if a = 0 then [Ref 1, Ref 1]
                     else if a = 1 then [Val (Finite 0), Val (Finite 0)]
                     else [])"

definition raggedRows :: "number store" where
  "raggedRows = (\<lambda>a. if a = 0 then [Ref 1, Ref 2]
                      else if a = 1 then [Val (Finite 1), Val (Finite 2)]
                      else [])"

section \<open>Construction and validation\<close>

lemma preprocess_id: "preprocess d = d"
  by (induction d rule: preprocess.induct) simp_all

lemma clone_numbers:
  "\<forall>s. typeofNumber rt s \<Longrightarrow> clone rt v = Inr v"
  "\<forall>s. typeofNumber rt s \<Longrightarrow> clone_all rt vs = Inr vs"
  by (induction rt v and rt vs rule: clone_clone_all.induct) simp_all

lemma firstLeaf_not_Arr: "firstLeaf v \<noteq> Arr c"
  by (induction v rule: firstLeaf.induct) simp_all


lemma newDenseMatrix_array:
  "newDenseMatrix rt (ArrayArg d) dt =
     (case firstLeaf (Arr d) of
        Scalar el \<Rightarrow> Inr \<lparr>p_data = d, p_size = arraySize (Arr d), p_datatype = None,
                         scalarArithmetics = (if typeofNumber rt el then numberArithmetics rt
                                              else symArithmetics rt el)\<rparr>
      | _ \<Rightarrow> Inl (TypeError ''Cannot read properties of undefined''))"
  by (simp add: newDenseMatrix_def preprocess_id findScalarArithmetic_def Let_def
      split: jsval.split)





lemma forEachE_Inr: "forEachE f xs = Inr () \<longleftrightarrow> (\<forall>x\<in>set xs. f x = Inr ())"
  by (induction xs) (auto split: sum.splits)

lemma forEachE_Inl: "forEachE f xs = Inl e \<Longrightarrow> \<exists>x\<in>set xs. f x = Inl e"
  by (induction xs) (auto split: sum.splits)

lemma validate_rec_error:
  "validate_rec array sz n = Inl e \<Longrightarrow> \<exists>a x r. e = DimensionError a x r"
proof (induction sz arbitrary: array)
  case Nil
  then show ?case by simp
next
  case (Cons s rest)
  show ?case
  proof (cases "int (length array) \<noteq> s")
    case True
    with Cons.prems show ?thesis by auto
  next
    case len: False
    show ?thesis
    proof (cases "rest = []")
      case True
      with len Cons.prems have
        "forEachE (\<lambda>child. if isArray child then Inl (DimensionError (n + 1) n ''>'')
                           else Inr ()) array = Inl e"
        by simp
      from forEachE_Inl[OF this] show ?thesis by (auto split: if_splits)
    next
      case False
      with len Cons.prems have
        "forEachE (\<lambda>child. case child of Arr c \<Rightarrow> validate_rec c rest n
             | _ \<Rightarrow> Inl (DimensionError (n - 1) n ''<'')) array = Inl e"
        by simp
      from forEachE_Inl[OF this] obtain child where "child \<in> set array" and
        c: "(case child of Arr c \<Rightarrow> validate_rec c rest n
             | _ \<Rightarrow> Inl (DimensionError (n - 1) n ''<'')) = Inl e" ..
      from c show ?thesis using Cons.IH by (cases child) auto
    qed
  qed
qed

lemma validate_rec_lengths:
  "validate_rec array sz n = Inr () \<Longrightarrow> sz \<noteq> [] \<Longrightarrow> l \<in> set (lengthsAt k (Arr array))
     \<Longrightarrow> k < length sz \<and> int l = sz ! k"
proof (induction sz arbitrary: array k l)
  case Nil
  then show ?case by simp
next
  case (Cons s rest)
  from Cons.prems(1) have len: "int (length array) = s"
    by (auto split: if_splits)
  show ?case
  proof (cases k)
    case 0
    with Cons.prems(3) len show ?thesis by simp
  next
    case (Suc k')
    with Cons.prems(3) obtain child where ch: "child \<in> set array"
        and l: "l \<in> set (lengthsAt k' child)"
      by auto
    from l obtain c where c: "child = Arr c" by (cases child) auto
    show ?thesis
    proof (cases "rest = []")
      case True
      with Cons.prems(1) len ch c show ?thesis
        by (auto simp: forEachE_Inr split: if_splits)
    next
      case False
      with Cons.prems(1) len have
        "\<forall>x\<in>set array. (case x of Arr c \<Rightarrow> validate_rec c rest n
             | _ \<Rightarrow> Inl (DimensionError (n - 1) n ''<'')) = Inr ()"
        by (simp add: forEachE_Inr)
      with ch c have "validate_rec c rest n = Inr ()" by auto
      from Cons.IH[OF this False] l c Suc show ?thesis by simp
    qed
  qed
qed

text \<open>
  Claim C2, amended.  The constructor makes no homogeneity check: for every nested
  array whose first leaf chain ends in a scalar it succeeds, keeps the data as given
  and records as shape the lengths along the first entries, whatever the lengths of
  the other arrays are.  An input in which two arrays at the same nesting depth have
  different lengths is rejected only by the separate \<open>validate(array, size)\<close>, which
  fails with a DimensionError for every such input and every \<open>size\<close>.
\<close>

theorem constructor_no_validation:
  "(firstLeaf (Arr d) = Scalar el
      \<longrightarrow> newDenseMatrix rt (ArrayArg d) dt =
            Inr \<lparr>p_data = d, p_size = arraySize (Arr d), p_datatype = None,
                 scalarArithmetics = (if typeofNumber rt el then numberArithmetics rt
                                      else symArithmetics rt el)\<rparr>)
   \<and> (l1 \<in> set (lengthsAt k (Arr d')) \<and> l2 \<in> set (lengthsAt k (Arr d')) \<and> l1 \<noteq> l2
      \<longrightarrow> (\<exists>a x r. validate d' sz = Inl (DimensionError a x r)))"
proof (intro conjI impI)
  assume "firstLeaf (Arr d) = Scalar el"
  then show "newDenseMatrix rt (ArrayArg d) dt =
            Inr \<lparr>p_data = d, p_size = arraySize (Arr d), p_datatype = None,
                 scalarArithmetics = (if typeofNumber rt el then numberArithmetics rt
                                      else symArithmetics rt el)\<rparr>"
    by (simp add: newDenseMatrix_array)
next
  assume r: "l1 \<in> set (lengthsAt k (Arr d')) \<and> l2 \<in> set (lengthsAt k (Arr d')) \<and> l1 \<noteq> l2"
  show "\<exists>a x r. validate d' sz = Inl (DimensionError a x r)"
  proof (cases "sz = []")
    case True
    then show ?thesis by (simp add: validate_def)
  next
    case False
    show ?thesis
    proof (cases "validate_rec d' sz (int (length sz))")
      case (Inl e)
      with False validate_rec_error[OF Inl] show ?thesis by (auto simp: validate_def)
    next
      case (Inr u)
      then have ok: "validate_rec d' sz (int (length sz)) = Inr ()" by simp
      from r validate_rec_lengths[OF ok False, of l1 k] validate_rec_lengths[OF ok False, of l2 k]
      have False by auto
      then show ?thesis ..
    qed
  qed
qed

theorem ragged_accepted_counterexample:
  "newDenseMatrix numberRuntime (ArrayArg ragged12) None =
     Inr \<lparr>p_data = ragged12, p_size = [2, 2], p_datatype = None,
          scalarArithmetics = NumberArithmetics\<rparr>
   \<and> lengthsAt 1 (Arr ragged12) = [2, 1]"
  by (simp add: newDenseMatrix_def ragged12_def findScalarArithmetic_def numberRuntime_def)

theorem constructor_no_validation_witness:
  "firstLeaf (Arr ragged12) = Scalar (Finite 1)
   \<and> newDenseMatrix numberRuntime (ArrayArg ragged12) None =
     Inr \<lparr>p_data = ragged12, p_size = [2, 2], p_datatype = None,
          scalarArithmetics = NumberArithmetics\<rparr>
   \<and> 2 \<in> set (lengthsAt 1 (Arr ragged12)) \<and> 1 \<in> set (lengthsAt 1 (Arr ragged12))
   \<and> (\<exists>a x r. validate ragged12 [2, 2] = Inl (DimensionError a x r))"
proof -
  have f: "firstLeaf (Arr ragged12) = Scalar (Finite 1)" by (simp add: ragged12_def)
  have l: "2 \<in> set (lengthsAt 1 (Arr ragged12)) \<and> 1 \<in> set (lengthsAt 1 (Arr ragged12))
      \<and> (2 :: nat) \<noteq> 1"
    by (simp add: ragged12_def)
  have a: "arraySize (Arr ragged12) = [2, 2]" by (simp add: ragged12_def)
  note T = constructor_no_validation[of ragged12 "Finite 1" numberRuntime None 2 1 ragged12 1 "[2, 2]"]
  from T f a have "newDenseMatrix numberRuntime (ArrayArg ragged12) None =
     Inr \<lparr>p_data = ragged12, p_size = [2, 2], p_datatype = None,
          scalarArithmetics = NumberArithmetics\<rparr>"
    by (simp add: numberRuntime_def)
  moreover from T l have "\<exists>a x r. validate ragged12 [2, 2] = Inl (DimensionError a x r)"
    by blast
  ultimately show ?thesis using f l by blast
qed

section \<open>Element access: set then get\<close>

lemma validIndex_Cons:
  "validIndex (i # irest) (s # rest) \<longleftrightarrow> 0 \<le> i \<and> i < s \<and> validIndex irest rest"
  by (simp add: validIndex_def)

lemma validIndex_Nil: "validIndex idx [] \<longleftrightarrow> idx = []" "validIndex [] sz \<longleftrightarrow> sz = []"
  by (simp_all add: validIndex_def)

lemma validIndex_length: "validIndex idx sz \<Longrightarrow> length idx = length sz"
  by (simp add: validIndex_def list_all2_lengthD)

lemma validIndex_checks:
  "validIndex idx sz \<Longrightarrow> forEachE (\<lambda>(i, s). validateIndex i s) (zip idx sz) = Inr ()"
proof (induction idx arbitrary: sz)
  case Nil
  then show ?case by simp
next
  case (Cons i irest)
  then obtain s rest where "sz = s # rest" by (cases sz) (auto simp: validIndex_def)
  with Cons show ?case by (simp add: validIndex_Cons validateIndex_def)
qed

lemma get_st_valid:
  "validIndex idx (r_size t) \<Longrightarrow> get_st h t idx = get_walk_st h (Ref (r_data t)) idx"
  by (simp add: get_st_def validIndex_length validIndex_checks)

lemma validate_rec_st_Cons:
  assumes "validate_rec_st h a (s # rest) n = Inr ()"
  shows "int (length (h a)) = s"
    and "rest \<noteq> [] \<Longrightarrow> child \<in> set (h a)
           \<Longrightarrow> \<exists>c. child = Ref c \<and> validate_rec_st h c rest n = Inr ()"
    and "rest = [] \<Longrightarrow> child \<in> set (h a) \<Longrightarrow> \<not> isRef child"
proof -
  show len: "int (length (h a)) = s" using assms by (auto split: if_splits)
  {
    assume r: "rest \<noteq> []" and ch: "child \<in> set (h a)"
    from assms len r have
      "\<forall>x\<in>set (h a). (case x of Ref c \<Rightarrow> validate_rec_st h c rest n
             | _ \<Rightarrow> Inl (DimensionError (n - 1) n ''<'')) = Inr ()"
      by (simp add: forEachE_Inr)
    with ch have "(case child of Ref c \<Rightarrow> validate_rec_st h c rest n
             | _ \<Rightarrow> Inl (DimensionError (n - 1) n ''<'')) = Inr ()"
      by blast
    then show "\<exists>c. child = Ref c \<and> validate_rec_st h c rest n = Inr ()"
      by (cases child) simp_all
  }
  {
    assume r: "rest = []" and ch: "child \<in> set (h a)"
    from assms len r have
      "\<forall>x\<in>set (h a). (if isRef x then Inl (DimensionError (n + 1) n ''>'') else Inr ()) = Inr ()"
      by (simp add: forEachE_Inr)
    with ch have "(if isRef child then Inl (DimensionError (n + 1) n ''>'') else Inr ()) = Inr ()"
      by blast
    then show "\<not> isRef child" by (simp split: if_splits)
  }
qed

text \<open>
  The store changes how the arrays are held, not what the methods do: on the nested
  value that the arrays of a store denote, \<open>get\<close> and \<open>validate\<close> as defined on values give
  what \<open>get\<close> and \<open>validate\<close> on the store give.
\<close>

lemma get_walk_contents:
  "length idx < n \<Longrightarrow>
     get_walk (contents n h c) idx =
       (case get_walk_st h c idx of Inl e \<Rightarrow> Inl e
        | Inr x \<Rightarrow> Inr (contents (n - length idx) h x))"
proof (induction idx arbitrary: c n)
  case Nil
  then obtain k where "n = Suc k" by (cases n) auto
  then show ?case by (cases c) simp_all
next
  case (Cons i rest)
  then obtain k where n: "n = Suc k" and k: "length rest < k" by (cases n) auto
  show ?case
  proof (cases c)
    case (Ref a)
    show ?thesis
    proof (cases "validateIndex i (int (length (h a)))")
      case (Inl e)
      then show ?thesis by (simp add: n Ref)
    next
      case (Inr u)
      then have "0 \<le> i" "i < int (length (h a))"
        by (auto simp: validateIndex_def split: if_splits)
      then have "elemAt (map (contents k h) (h a)) i = contents k h (cellAt (h a) i)"
        by (simp add: elemAt_def cellAt_def)
      with Inr Cons.IH[OF k, of "cellAt (h a) i"] show ?thesis
        by (simp add: n Ref split: sum.split)
    qed
  qed (simp_all)
qed

lemma forEachE_map: "forEachE f (map g xs) = forEachE (\<lambda>x. f (g x)) xs"
  by (induction xs) (simp_all split: sum.split)

lemma isArray_contents: "isArray (contents (Suc n) h x) = isRef x"
  by (cases x) simp_all

lemma validate_rec_contents:
  "length sz \<le> n \<Longrightarrow>
     validate_rec (map (contents n h) (h a)) sz m = validate_rec_st h a sz m"
proof (induction sz arbitrary: a n)
  case Nil
  then show ?case by simp
next
  case (Cons s rest)
  then obtain k where n: "n = Suc k" and k: "length rest \<le> k" by (cases n) auto
  show ?case
  proof (cases "rest = []")
    case True
    then show ?thesis
      by (simp add: n forEachE_map isArray_contents)
  next
    case False
    with k obtain k' where k': "k = Suc k'" and r: "length rest \<le> Suc k'"
      by (cases k) auto
    have "(case contents n h x of Arr c \<Rightarrow> validate_rec c rest m
             | _ \<Rightarrow> Inl (DimensionError (m - 1) m ''<''))
        = (case x of Ref c \<Rightarrow> validate_rec_st h c rest m
             | _ \<Rightarrow> Inl (DimensionError (m - 1) m ''<''))" for x
      using Cons.IH[OF k] by (cases x) (simp_all add: n)
    then show ?thesis
      using False by (simp add: forEachE_map)
  qed
qed


lemma validate_contents:
  "length sz \<le> n \<Longrightarrow> validate (map (contents n h) (h a)) sz = validate_st h a sz"
  by (simp add: validate_def validate_st_def validate_rec_contents)

lemma get_contents:
  assumes "p_data m = map (contents n h) (h (r_data t))" and "p_size m = r_size t"
    and "length (r_size t) \<le> n"
  shows "get m idx =
           (case get_st h t idx of Inl e \<Rightarrow> Inl e
            | Inr x \<Rightarrow> Inr (contents (Suc n - length idx) h x))"
proof (cases "length idx = length (r_size t)")
  case False
  then show ?thesis by (simp add: get_def get_st_def assms(2))
next
  case True
  with assms(3) have l: "length idx < Suc n" by simp
  have "Arr (p_data m) = contents (Suc n) h (Ref (r_data t))" by (simp add: assms(1))
  then have "get_walk (Arr (p_data m)) idx =
           (case get_walk_st h (Ref (r_data t)) idx of Inl e \<Rightarrow> Inl e
            | Inr x \<Rightarrow> Inr (contents (Suc n - length idx) h x))"
    using get_walk_contents[OF l, of h "Ref (r_data t)"] by simp
  with True show ?thesis
    by (simp add: get_def get_st_def assms(2) split: sum.split)
qed

text \<open>
  On arrays that match the shape, the array that holds the slot of a valid index is
  found, and the slot is inside it.
\<close>

lemma terminal_slot:
  assumes "validate_rec_st h a sz n = Inr ()" and "sz \<noteq> []" and "validIndex idx sz"
  shows "\<exists>arr. retrieveTopArrayByIndex h a idx = Inr arr \<and> 0 \<le> last idx
           \<and> nat (last idx) < length (h arr) \<and> \<not> isRef (h arr ! nat (last idx))"
  using assms
proof (induction sz arbitrary: a idx)
  case Nil
  then show ?case by simp
next
  case (Cons s rest)
  from Cons.prems(3) obtain i irest where idx: "idx = i # irest"
    and i: "0 \<le> i" "i < s" and irest: "validIndex irest rest"
    by (cases idx) (auto simp: validIndex_Cons validIndex_Nil)
  note v = validate_rec_st_Cons[OF Cons.prems(1)]
  from v(1) i have inb: "nat i < length (h a)" by simp
  then have mem: "h a ! nat i \<in> set (h a)" by simp
  from v(1) i have lt: "i < int (length (h a))" by simp
  show ?case
  proof (cases "rest = []")
    case True
    with irest have ir: "irest = []" by (simp add: validIndex_Nil)
    from v(3)[OF True mem] inb i show ?thesis by (simp add: idx ir)
  next
    case False
    from v(2)[OF False mem] obtain c where c: "h a ! nat i = Ref c"
      and vc: "validate_rec_st h c rest n = Inr ()" by blast
    from False irest obtain i1 ir1 where ir: "irest = i1 # ir1"
      by (cases irest) (auto simp: validIndex_Nil)
    from i lt c have "cellAt (h a) i = Ref c" by (simp add: cellAt_def)
    then have "retrieveTopArrayByIndex h a idx = retrieveTopArrayByIndex h c irest"
      by (simp add: idx ir)
    with Cons.IH[OF vc False irest] show ?thesis by (simp add: idx ir)
  qed
qed

text \<open>
  After an assignment into a slot of an array, \<open>get\<close> at a valid index returns the new
  value if the index leads to that array and that slot, and what it returned before
  otherwise.
\<close>

lemma get_after_assign:
  assumes "validate_rec_st h a sz n = Inr ()" and "sz \<noteq> []" and "validIndex j sz"
    and "l < length (h arr)" and "\<not> isRef (h arr ! l)"
  shows "get_walk_st (h(arr := (h arr)[l := Val v])) (Ref a) j =
           (if retrieveTopArrayByIndex h a j = Inr arr \<and> nat (last j) = l then Inr (Val v)
            else get_walk_st h (Ref a) j)"
  using assms(1,2,3)
proof (induction sz arbitrary: a j)
  case Nil
  then show ?case by simp
next
  case (Cons s rest)
  let ?h = "h(arr := (h arr)[l := Val v])"
  from Cons.prems(3) obtain j0 jrest where j: "j = j0 # jrest"
    and j0: "0 \<le> j0" "j0 < s" and jrest: "validIndex jrest rest"
    by (cases j) (auto simp: validIndex_Cons validIndex_Nil)
  note v = validate_rec_st_Cons[OF Cons.prems(1)]
  from v(1) j0 have inb: "nat j0 < length (h a)" by simp
  then have mem: "h a ! nat j0 \<in> set (h a)" by simp
  from v(1) j0 have lt: "j0 < int (length (h a))" by simp
  have len: "length (?h a) = length (h a)" by simp
  from j0 v(1) have ok2: "validateIndex j0 (int (length (h a))) = Inr ()"
    by (simp add: validateIndex_def)
  then have ok1: "validateIndex j0 (int (length (?h a))) = Inr ()"
    by (simp only: len)
  note ok = ok1 ok2
  show ?case
  proof (cases "rest = []")
    case True
    with jrest have jr: "jrest = []" by (simp add: validIndex_Nil)
    from v(3)[OF True mem] have nr: "\<not> isRef (h a ! nat j0)" .
    have new: "cellAt (?h a) j0 = (if a = arr \<and> nat j0 = l then Val v else h a ! nat j0)"
      using j0 lt inb assms(4) by (auto simp: cellAt_def)
    have old: "cellAt (h a) j0 = h a ! nat j0"
      using j0 lt by (simp add: cellAt_def)
    show ?thesis
      using nr by (simp add: j jr ok new old del: fun_upd_apply)
  next
    case False
    from v(2)[OF False mem] obtain c where c: "h a ! nat j0 = Ref c"
      and vc: "validate_rec_st h c rest n = Inr ()" by blast
    from False jrest obtain j1 jr1 where jr: "jrest = j1 # jr1"
      by (cases jrest) (auto simp: validIndex_Nil)
    from c assms(5) have "\<not> (a = arr \<and> nat j0 = l)" by auto
    then have new: "cellAt (?h a) j0 = Ref c"
      using j0 lt inb c by (auto simp: cellAt_def)
    have old: "cellAt (h a) j0 = Ref c"
      using j0 lt c by (simp add: cellAt_def)
    have r: "retrieveTopArrayByIndex h a j = retrieveTopArrayByIndex h c jrest"
      using old by (simp add: j jr)
    have l: "last j = last jrest" by (simp add: j jr)
    have g1: "get_walk_st ?h (Ref a) j = get_walk_st ?h (Ref c) jrest"
      using ok(1) new by (simp add: j del: fun_upd_apply)
    have g2: "get_walk_st h (Ref a) j = get_walk_st h (Ref c) jrest"
      using ok(2) old by (simp add: j)
    from Cons.IH[OF vc False jrest] show ?thesis
      unfolding g1 g2 r l .
  qed
qed

text \<open>
  Claim C5, amended.  For every tensor \<open>t\<close> whose arrays match its shape (\<open>validate\<close>
  accepts them) and in which the arrays holding the elements at different positions
  are different objects (two valid indices lead to the same array only if they agree
  in all components but the last), every valid index \<open>idx\<close> and every value \<open>v\<close>:
  \<open>t.set(idx, v)\<close> succeeds, \<open>t.get(idx)\<close> then returns \<open>v\<close>, and \<open>t.get(j)\<close> returns what
  it returned before for every other valid index \<open>j\<close>.

  Without the second condition the claim fails: the constructor keeps the arrays it
  is given, so with \<open>const r = [0, 0]\<close> the tensor \<open>new DenseMatrix([r, r])\<close> has one row
  object at both places, and \<open>set([0, 0], 9)\<close> changes \<open>get([1, 0])\<close> from \<open>0\<close> to \<open>9\<close>.
  Without the first it fails too: in \<open>new DenseMatrix([[1, 2], []])\<close>, of shape
  \<open>[2, 2]\<close>, \<open>set([1, 1], 9)\<close> lengthens the second row, and \<open>get([1, 0])\<close>, which threw
  an IndexError before, returns \<open>undefined\<close>.
\<close>

theorem set_then_get:
  assumes val: "validate_st h (r_data t) (r_size t) = Inr ()"
    and distinct:
      "\<forall>i j. validIndex i (r_size t) \<and> validIndex j (r_size t)
             \<and> retrieveTopArrayByIndex h (r_data t) i = retrieveTopArrayByIndex h (r_data t) j
          \<longrightarrow> butlast i = butlast j"
    and idx: "validIndex idx (r_size t)"
  shows "\<exists>h'. set_dm h t idx v = Inr h'
              \<and> get_st h' t idx = Inr (Val v)
              \<and> (\<forall>j. validIndex j (r_size t) \<and> j \<noteq> idx \<longrightarrow> get_st h' t j = get_st h t j)"
proof -
  from val have ne: "r_size t \<noteq> []"
    and vr: "validate_rec_st h (r_data t) (r_size t) (int (length (r_size t))) = Inr ()"
    by (auto simp: validate_st_def split: if_splits)
  from terminal_slot[OF vr ne idx] obtain arr where
    r: "retrieveTopArrayByIndex h (r_data t) idx = Inr arr" and nn: "0 \<le> last idx"
    and inb: "nat (last idx) < length (h arr)" and nr: "\<not> isRef (h arr ! nat (last idx))"
    by blast
  let ?l = "nat (last idx)"
  let ?h = "h(arr := (h arr)[?l := Val v])"
  from idx ne have ine: "idx \<noteq> []" by (auto simp: validIndex_Nil)
  from nn inb have "last idx < int (length (h arr))" by linarith
  with nn have "assignAt (h arr) (last idx) (Val v) = (h arr)[?l := Val v]"
    by (simp add: assignAt_def)
  with r ine idx have s: "set_dm h t idx v = Inr ?h"
    by (simp add: set_dm_def validIndex_length)
  note G = get_after_assign[OF vr ne _ inb nr, of _ v]
  have gi: "get_st ?h t idx = Inr (Val v)"
    using G[OF idx] r by (simp add: get_st_valid[OF idx])
  have go: "get_st ?h t j = get_st h t j" if j: "validIndex j (r_size t)" and d: "j \<noteq> idx" for j
  proof -
    have "\<not> (retrieveTopArrayByIndex h (r_data t) j = Inr arr \<and> nat (last j) = ?l)"
    proof
      assume a: "retrieveTopArrayByIndex h (r_data t) j = Inr arr \<and> nat (last j) = ?l"
      with r distinct j idx have b: "butlast j = butlast idx" by metis
      from j ne have jne: "j \<noteq> []" by (auto simp: validIndex_Nil)
      from terminal_slot[OF vr ne j] have "0 \<le> last j" by blast
      with a nn have "last j = last idx" by (simp add: eq_nat_nat_iff)
      with b jne ine have "j = idx" by (metis append_butlast_last_id)
      with d show False by simp
    qed
    with G[OF j] show ?thesis by (simp add: get_st_valid[OF j])
  qed
  show ?thesis
  proof (intro exI[of _ ?h] conjI allI impI)
    show "set_dm h t idx v = Inr ?h" by (rule s)
    show "get_st ?h t idx = Inr (Val v)" by (rule gi)
    fix j assume "validIndex j (r_size t) \<and> j \<noteq> idx"
    then show "get_st ?h t j = get_st h t j" using go by blast
  qed
qed


theorem set_then_get_witness:
  "validate_st distinctRows (r_data stored22) (r_size stored22) = Inr ()
   \<and> validIndex [1, 0] (r_size stored22) \<and> validIndex [0, 1] (r_size stored22)
   \<and> get_st distinctRows stored22 [0, 1] = Inr (Val (Finite (- 2)))
   \<and> (\<exists>h'. set_dm distinctRows stored22 [1, 0] (Finite 9) = Inr h'
           \<and> get_st h' stored22 [1, 0] = Inr (Val (Finite 9))
           \<and> get_st h' stored22 [0, 1] = Inr (Val (Finite (- 2))))"
proof -
  have v: "validate_st distinctRows (r_data stored22) (r_size stored22) = Inr ()"
    by (simp add: validate_st_def stored22_def distinctRows_def)
  have i: "validIndex [1, 0] (r_size stored22)" and j: "validIndex [0, 1] (r_size stored22)"
    by (simp_all add: stored22_def validIndex_def)
  have g: "get_st distinctRows stored22 [0, 1] = Inr (Val (Finite (- 2)))"
    by (simp add: stored22_def distinctRows_def get_st_def validateIndex_def cellAt_def)
  have top: "retrieveTopArrayByIndex distinctRows (r_data stored22) k
               = Inr (if hd k = 0 then 1 else 2)"
    if "validIndex k (r_size stored22)" for k
  proof -
    from that obtain k0 k1 where k: "k = [k0, k1]" and "0 \<le> k0" "k0 < 2"
      by (auto simp: stored22_def validIndex_def list_all2_Cons2)
    then have "k0 = 0 \<or> k0 = 1" by auto
    then show ?thesis
      by (auto simp: k stored22_def distinctRows_def cellAt_def)
  qed
  have d: "\<forall>i j. validIndex i (r_size stored22) \<and> validIndex j (r_size stored22)
             \<and> retrieveTopArrayByIndex distinctRows (r_data stored22) i
                 = retrieveTopArrayByIndex distinctRows (r_data stored22) j
          \<longrightarrow> butlast i = butlast j"
  proof (intro allI impI)
    fix i j
    assume a: "validIndex i (r_size stored22) \<and> validIndex j (r_size stored22)
             \<and> retrieveTopArrayByIndex distinctRows (r_data stored22) i
                 = retrieveTopArrayByIndex distinctRows (r_data stored22) j"
    then obtain i0 i1 j0 j1 where ij: "i = [i0, i1]" "j = [j0, j1]"
      and b: "0 \<le> i0" "i0 < 2" "0 \<le> j0" "j0 < 2"
      by (auto simp: stored22_def validIndex_def list_all2_Cons2)
    from a top[of i] top[of j] have "(if i0 = 0 then 1 else 2) = (if j0 = 0 then 1 else (2 :: nat))"
      by (simp add: ij)
    with b have "i0 = j0" by (auto split: if_splits)
    then show "butlast i = butlast j" by (simp add: ij)
  qed
  from set_then_get[OF v d i, of "Finite 9"] obtain h' where
    h: "set_dm distinctRows stored22 [1, 0] (Finite 9) = Inr h'"
       "get_st h' stored22 [1, 0] = Inr (Val (Finite 9))"
       "\<forall>j. validIndex j (r_size stored22) \<and> j \<noteq> [1, 0]
            \<longrightarrow> get_st h' stored22 j = get_st distinctRows stored22 j"
    by blast
  from h(3) j have "get_st h' stored22 [0, 1] = get_st distinctRows stored22 [0, 1]" by simp
  with h g v i j show ?thesis by auto
qed

theorem set_then_get_counterexample:
  "contents 2 sharedRow (Ref (r_data stored22))
     = Arr [Arr [Scalar (Finite 0), Scalar (Finite 0)], Arr [Scalar (Finite 0), Scalar (Finite 0)]]
   \<and> newDenseMatrix numberRuntime
         (ArrayArg [Arr [Scalar (Finite 0), Scalar (Finite 0)],
                    Arr [Scalar (Finite 0), Scalar (Finite 0)]]) None
       = Inr \<lparr>p_data = [Arr [Scalar (Finite 0), Scalar (Finite 0)],
                        Arr [Scalar (Finite 0), Scalar (Finite 0)]],
              p_size = r_size stored22, p_datatype = None,
              scalarArithmetics = NumberArithmetics\<rparr>
   \<and> validate_st sharedRow (r_data stored22) (r_size stored22) = Inr ()
   \<and> validIndex [0, 0] (r_size stored22) \<and> validIndex [1, 0] (r_size stored22)
   \<and> get_st sharedRow stored22 [1, 0] = Inr (Val (Finite 0))
   \<and> set_dm sharedRow stored22 [0, 0] (Finite 9)
       = Inr (sharedRow(1 := [Val (Finite 9), Val (Finite 0)]))
   \<and> get_st (sharedRow(1 := [Val (Finite 9), Val (Finite 0)])) stored22 [1, 0]
       = Inr (Val (Finite 9))
   \<and> contents 2 raggedRows (Ref (r_data stored22))
     = Arr [Arr [Scalar (Finite 1), Scalar (Finite 2)], Arr []]
   \<and> newDenseMatrix numberRuntime
         (ArrayArg [Arr [Scalar (Finite 1), Scalar (Finite 2)], Arr []]) None
       = Inr \<lparr>p_data = [Arr [Scalar (Finite 1), Scalar (Finite 2)], Arr []],
              p_size = r_size stored22, p_datatype = None,
              scalarArithmetics = NumberArithmetics\<rparr>
   \<and> validate_st raggedRows (r_data stored22) (r_size stored22) = Inl (DimensionError 0 2 ''!='')
   \<and> validIndex [1, 1] (r_size stored22)
   \<and> get_st raggedRows stored22 [1, 0] = Inl (IndexError 0 0)
   \<and> set_dm raggedRows stored22 [1, 1] (Finite 9)
       = Inr (raggedRows(2 := [Undef, Val (Finite 9)]))
   \<and> get_st (raggedRows(2 := [Undef, Val (Finite 9)])) stored22 [1, 0] = Inr Undef"
  by (simp add: stored22_def sharedRow_def raggedRows_def validate_st_def validIndex_def
      get_st_def set_dm_def validateIndex_def cellAt_def assignAt_def numeral_2_eq_2
      newDenseMatrix_def findScalarArithmetic_def numberRuntime_def)

section \<open>Failure of the in-place resize\<close>

text \<open>
  Claim C3.  The claim is that a failed in-place \<open>resize\<close> leaves the tensor's data
  and reported size as they were.  The method assigns \<open>#size\<close> before the utility
  checks the size list: after \<open>resize([-1], 0)\<close> on the vector \<open>[3, -4]\<close> has thrown,
  the data are unchanged but the reported size is \<open>[-1]\<close>, and \<open>get([0])\<close>, which
  returned \<open>3\<close> before, throws an IndexError.
\<close>

theorem resize_failure_changes_size:
  "DenseMatrix_resize numberRuntime vec34 [- 1] (Finite 0) False
     = (vec34\<lparr>p_size := [- 1]\<rparr>,
        Inl (TypeError ''Invalid size, must contain positive integers''))
   \<and> p_size vec34 = [2] \<and> p_size (vec34\<lparr>p_size := [- 1]\<rparr>) = [- 1]
   \<and> get vec34 [0] = Inr (Scalar (Finite 3))
   \<and> get (vec34\<lparr>p_size := [- 1]\<rparr>) [0] = Inl (IndexError 0 (- 1))"
  by (simp add: DenseMatrix_resize_def resize_def vec34_def get_def validateIndex_def
      elemAt_def)

section \<open>Serialization round trip\<close>

lemma get_scalarArithmetics_update:
  "get (t\<lparr>scalarArithmetics := A\<rparr>) idx = get t idx"
  by (simp add: get_def split: sum.split)

lemma fromJSON_toJSON:
  assumes "\<forall>s. typeofNumber rt s"
  shows "fromJSON rt (toJSON t) =
     (case firstLeaf (Arr (p_data t)) of
        Scalar el \<Rightarrow> Inr (t\<lparr>scalarArithmetics := numberArithmetics rt\<rparr>)
      | _ \<Rightarrow> Inl (TypeError ''Cannot read properties of undefined''))"
proof -
  have c: "clone rt (Arr (p_data t)) = Inr (Arr (p_data t))"
    by (rule clone_numbers(1)[OF assms])
  show ?thesis
    using assms
    by (simp add: fromJSON_def toJSON_def isSerializedDenseMatrix_def newDenseMatrix_def c
        findScalarArithmetic_def del: clone.simps split: jsval.split)
qed

text \<open>
  Over plain numbers, for a tensor whose first leaf chain ends in a scalar,
  \<open>fromJSON(t.toJSON())\<close> succeeds and produces a tensor with the shape of \<open>t\<close>, the data
  of \<open>t\<close>, and the same result of \<open>get\<close> at every index.
\<close>

lemma json_roundtrip:
  assumes "\<forall>s. typeofNumber rt s" and "firstLeaf (Arr (p_data t)) = Scalar s"
  shows "\<exists>t'. fromJSON rt (toJSON t) = Inr t' \<and> p_size t' = p_size t
              \<and> p_data t' = p_data t \<and> (\<forall>idx. get t' idx = get t idx)"
  using assms(2) by (simp add: fromJSON_toJSON[OF assms(1)] get_scalarArithmetics_update)

text \<open>
  Claim C6.  The claim is that \<open>fromJSON(t.toJSON())\<close> succeeds for every tensor of rank
  1 to 3 of plain numbers.  The vector \<open>[3, -4]\<close> after \<open>resize([0], 0)\<close> in place is a
  tensor of rank 1 of plain numbers, with no element and shape \<open>[0]\<close>; \<open>toJSON\<close> returns
  \<open>{mathjs: 'DenseMatrix', data: [], size: [0]}\<close> for it, and \<open>fromJSON\<close> of that
  throws a TypeError: the constructor's probe reads a property of the first leaf,
  which is \<open>undefined\<close>.  For \<open>[3, -4]\<close> itself and for \<open>[[1, -2], [-3, 4]]\<close> the round
  trip returns the tensor.
\<close>

theorem json_roundtrip_emptied:
  "DenseMatrix_resize numberRuntime vec34 [0] (Finite 0) False = (empty0, Inr empty0)
   \<and> length (p_size empty0) = 1
   \<and> toJSON empty0 = \<lparr>mathjs = ''DenseMatrix'', j_data = Arr [], j_size = [0],
                        j_datatype = None\<rparr>
   \<and> fromJSON numberRuntime (toJSON empty0)
       = Inl (TypeError ''Cannot read properties of undefined'')
   \<and> fromJSON numberRuntime (toJSON vec34) = Inr vec34
   \<and> fromJSON numberRuntime (toJSON mat1234) = Inr mat1234"
  by (simp add: fromJSON_def toJSON_def isSerializedDenseMatrix_def newDenseMatrix_def
      findScalarArithmetic_def numberRuntime_def empty0_def vec34_def mat1234_def
      DenseMatrix_resize_def resize_def)

section \<open>Capability gate of the pointwise division\<close>

lemma recurse_map_scalars:
  "(\<And>s index. callback (Scalar s) index = Inr (Scalar (f s))) \<Longrightarrow> allScalars v \<Longrightarrow>
     recurse_map callback v idx = Inr (mapScalars f v)"
  "(\<And>s index. callback (Scalar s) index = Inr (Scalar (f s))) \<Longrightarrow> (\<forall>x\<in>set xs. allScalars x) \<Longrightarrow>
     recurse_map_from callback xs i idx = Inr (map (mapScalars f) xs)"
  by (induction callback v idx and callback xs i idx rule: recurse_map_recurse_map_from.induct)
     simp_all

lemma firstLeaf_mapScalars: "firstLeaf (mapScalars f v) = mapScalars f (firstLeaf v)"
  by (induction v rule: firstLeaf.induct) simp_all

lemma arraySize_mapScalars: "arraySize (mapScalars f v) = arraySize v"
  by (induction v rule: arraySize.induct) simp_all

lemma allScalars_firstLeaf:
  "allScalars v \<Longrightarrow> firstLeaf v \<noteq> Undefined \<Longrightarrow> \<exists>s. firstLeaf v = Scalar s"
  by (induction v rule: firstLeaf.induct) simp_all

lemma map_dm_scalars:
  assumes cb: "\<And>s index. callback (Scalar s) index = Inr (Scalar (f s))"
    and a: "allScalars (Arr (p_data c))" and n: "firstLeaf (Arr (p_data c)) \<noteq> Undefined"
  shows "\<exists>m. map_dm rt c callback = Inr m \<and> p_data m = map (mapScalars f) (p_data c)
             \<and> p_size m = arraySize (Arr (p_data c))"
proof -
  from a n obtain s where s: "firstLeaf (Arr (p_data c)) = Scalar s"
    using allScalars_firstLeaf by blast
  have "firstLeaf (Arr (map (mapScalars f) (p_data c))) = mapScalars f (firstLeaf (Arr (p_data c)))"
    using firstLeaf_mapScalars[of f "Arr (p_data c)"] by simp
  with s have fl: "firstLeaf (Arr (map (mapScalars f) (p_data c))) = Scalar (f s)" by simp
  have sz: "arraySize (Arr (map (mapScalars f) (p_data c))) = arraySize (Arr (p_data c))"
    using arraySize_mapScalars[of f "Arr (p_data c)"] by simp
  from a have rm: "recurse_map_from callback (p_data c) 0 [] = Inr (map (mapScalars f) (p_data c))"
    by (intro recurse_map_scalars(2) cb) simp
  have dd: "map_dm rt c callback = newDenseMatrix rt (ArrayArg (map (mapScalars f) (p_data c))) None"
    by (simp only: map_dm_def rm sum.case)
  have "newDenseMatrix rt (ArrayArg (map (mapScalars f) (p_data c))) None =
      Inr \<lparr>p_data = map (mapScalars f) (p_data c), p_size = arraySize (Arr (p_data c)),
           p_datatype = None,
           scalarArithmetics = (if typeofNumber rt (f s) then numberArithmetics rt
                                else symArithmetics rt (f s))\<rparr>"
    by (simp only: newDenseMatrix_array fl sz jsval.case)
  with dd show ?thesis by simp
qed

text \<open>
  \<open>dotDiv\<close> on a tensor whose algebra lacks the DivisionRing capability fails with the
  unsupported-arithmetic error naming \<open>DivisionRing\<close>, whatever the tensor holds (so
  before any element is looked at), and the tensor is as it was.  When the algebra has
  the capability, and the tensor's leaves are scalars and its first leaf chain is not
  empty, \<open>dotDiv\<close> returns a new tensor in which every element is divided by the
  operand, with the shape read off the data; the tensor is as it was.
\<close>

lemma dotDiv_gated:
  "(\<not> symDivisionRing (scalarArithmetics a)
      \<longrightarrow> dotDiv rt a b = (a, Inl (ArithmeticError ''DivisionRing'')))
   \<and> (symDivisionRing (scalarArithmetics c) \<and> allScalars (Arr (p_data c))
        \<and> firstLeaf (Arr (p_data c)) \<noteq> Undefined
      \<longrightarrow> (\<exists>m. dotDiv rt c b = (c, Inr m)
               \<and> p_data m = map (mapScalars (\<lambda>x. Adiv (scalarArithmetics c) x b)) (p_data c)
               \<and> p_size m = arraySize (Arr (p_data c))))"
proof (intro conjI impI)
  assume "\<not> symDivisionRing (scalarArithmetics a)"
  then show "dotDiv rt a b = (a, Inl (ArithmeticError ''DivisionRing''))"
    by (simp add: dotDiv_def)
next
  assume h: "symDivisionRing (scalarArithmetics c) \<and> allScalars (Arr (p_data c))
        \<and> firstLeaf (Arr (p_data c)) \<noteq> Undefined"
  have cb: "(case asScalar (Scalar s) of Inl e \<Rightarrow> Inl e
             | Inr x \<Rightarrow> Inr (Scalar (Adiv (scalarArithmetics c) x b)))
            = Inr (Scalar (Adiv (scalarArithmetics c) s b))" for s
    by (simp add: asScalar_def)
  from h have "dotDiv rt c b = (c, map_dm rt c (\<lambda>el index. case asScalar el of Inl e \<Rightarrow> Inl e
                  | Inr x \<Rightarrow> Inr (Scalar (Adiv (scalarArithmetics c) x b))))"
    by (simp add: dotDiv_def Let_def)
  with map_dm_scalars[of "\<lambda>el index. case asScalar el of Inl e \<Rightarrow> Inl e
                  | Inr x \<Rightarrow> Inr (Scalar (Adiv (scalarArithmetics c) x b))"
      "\<lambda>x. Adiv (scalarArithmetics c) x b" c rt, OF cb] h
  show "\<exists>m. dotDiv rt c b = (c, Inr m)
               \<and> p_data m = map (mapScalars (\<lambda>x. Adiv (scalarArithmetics c) x b)) (p_data c)
               \<and> p_size m = arraySize (Arr (p_data c))"
    by simp
qed

text \<open>
  Claim C7.  The claim has two halves.  The first holds: on a tensor whose algebra
  lacks the DivisionRing capability, \<open>dotDiv\<close> fails with the unsupported-arithmetic
  error naming \<open>DivisionRing\<close> and the tensor is as it was.  The second is that with the
  capability \<open>dotDiv\<close> returns a new tensor with every element divided by the operand.
  For the vector \<open>[3, -4]\<close> divided by \<open>2\<close> it does.  The same vector after
  \<open>resize([0], 0)\<close> in place has the numeric algebra, which has the capability, and no
  element; \<open>dotDiv\<close> of it throws a TypeError instead of returning the empty tensor:
  \<open>map\<close> ends in the constructor, whose probe reads a property of the first leaf, which
  is \<open>undefined\<close>.
\<close>

theorem dotDiv_emptied_throws:
  "DenseMatrix_resize numberRuntime vec34 [0] (Finite 0) False = (empty0, Inr empty0)
   \<and> symDivisionRing (scalarArithmetics empty0)
   \<and> dotDiv numberRuntime empty0 (Finite 2)
       = (empty0, Inl (TypeError ''Cannot read properties of undefined''))
   \<and> dotDiv numberRuntime (vec34\<lparr>scalarArithmetics := NumberArithmetics\<lparr>symDivisionRing := False\<rparr>\<rparr>)
         (Finite 2)
       = (vec34\<lparr>scalarArithmetics := NumberArithmetics\<lparr>symDivisionRing := False\<rparr>\<rparr>,
          Inl (ArithmeticError ''DivisionRing''))
   \<and> dotDiv numberRuntime vec34 (Finite 2)
       = (vec34, Inr (vec34\<lparr>p_data := [Scalar (Finite (3 / 2)), Scalar (Finite (- 2))]\<rparr>))"
  by (simp add: empty0_def vec34_def DenseMatrix_resize_def resize_def dotDiv_def map_dm_def
      newDenseMatrix_def findScalarArithmetic_def NumberArithmetics_def numberRuntime_def
      asScalar_def Let_def)

section \<open>Matrix product\<close>

lemma elemAt_ofRows:
  "i < length xs \<Longrightarrow> elemAt (ofRows xs) (int i) = Arr (map Scalar (xs ! i))"
  by (simp add: elemAt_def ofRows_def)

lemma readAt_row:
  "k < length row \<Longrightarrow> readAt (Arr (map Scalar row)) (int k) = Inr (Scalar (row ! k))"
  by (simp add: readAt_def elemAt_def)

lemma mul_step_ofRows:
  assumes "i < length xs" and "k < length (xs ! i)" and "k < length ys" and "j < length (ys ! k)"
  shows "mul_step S (ofRows xs) (ofRows ys) i j r k
           = Inr (Aadd S r (Amul S (xs ! i ! k) (ys ! k ! j)))"
  using assms by (simp add: mul_step_def elemAt_ofRows readAt_row asScalar_def)

lemma foldlE_total:
  "(\<And>r k. k \<in> set ks \<Longrightarrow> f r k = Inr (g r k)) \<Longrightarrow> foldlE f ks r0 = Inr (foldl g r0 ks)"
  by (induction ks arbitrary: r0) simp_all

lemma mapE_total:
  "(\<And>z. z \<in> set zs \<Longrightarrow> f z = Inr (g z)) \<Longrightarrow> mapE f zs = Inr (map g zs)"
  by (induction zs) simp_all

lemma ofRows_shape:
  assumes "c \<noteq> []" and "\<forall>row\<in>set c. length row = C" and "0 < C"
  shows "arraySize (Arr (ofRows c)) = [int (length c), int C]"
    and "\<exists>s. firstLeaf (Arr (ofRows c)) = Scalar s"
proof -
  from assms(1) obtain row rest where c: "c = row # rest" by (cases c) auto
  with assms(2,3) obtain x xs where row: "row = x # xs" and len: "length row = C"
    by (cases row) auto
  from len row show "arraySize (Arr (ofRows c)) = [int (length c), int C]"
    by (simp add: c ofRows_def) 
  show "\<exists>s. firstLeaf (Arr (ofRows c)) = Scalar s"
    by (simp add: c row ofRows_def)
qed

lemma mul_rank2_ofRows:
  assumes r: "length (p_size a) = 2" "length (p_size b) = 2"
    and d: "p_data a = ofRows xs" "p_data b = ofRows ys"
    and ne: "xs \<noteq> []" "ys \<noteq> []"
    and rows: "\<forall>row\<in>set xs. length row = B" "\<forall>row\<in>set ys. length row = C"
  shows "length ys \<noteq> B \<Longrightarrow> mul rt a b = Inl (DimensionError (int (length ys)) (int B) ''!='')"
    and "length ys = B \<Longrightarrow> 0 < C \<Longrightarrow>
           \<exists>m. mul rt a b = Inr m \<and> p_size m = [int (length xs), int C]
              \<and> p_data m = ofRows (matrixProduct (scalarArithmetics a) xs ys C)"
proof -
  let ?S = "scalarArithmetics a"
  from ne rows have la: "readLength (elemAt (ofRows xs) 0) = Inr B"
    using elemAt_ofRows[of 0 xs] by (simp add: readLength_def)
  from ne rows have lb: "readLength (elemAt (ofRows ys) 0) = Inr C"
    using elemAt_ofRows[of 0 ys] by (simp add: readLength_def)
  have lo: "length (ofRows ys) = length ys" "length (ofRows xs) = length xs"
    by (simp_all add: ofRows_def)
  show "mul rt a b = Inl (DimensionError (int (length ys)) (int B) ''!='')" if "length ys \<noteq> B"
    using that r by (simp add: mul_def d la lb lo Let_def)
  show "\<exists>m. mul rt a b = Inr m \<and> p_size m = [int (length xs), int C]
              \<and> p_data m = ofRows (matrixProduct ?S xs ys C)"
    if eq: "length ys = B" and C: "0 < C"
  proof -
    have inner: "foldlE (mul_step ?S (ofRows xs) (ofRows ys) i j) [0 ..< B] (Azero ?S)
                   = Inr (productEntry ?S xs ys i j)"
      if "i < length xs" and "j < C" for i j
    proof -
      have "mul_step ?S (ofRows xs) (ofRows ys) i j r k
              = Inr (Aadd ?S r (Amul ?S (xs ! i ! k) (ys ! k ! j)))"
        if "k \<in> set [0 ..< B]" for r k
        using that \<open>i < length xs\<close> \<open>j < C\<close> rows eq
        by (intro mul_step_ofRows) simp_all
      from foldlE_total[of "[0 ..< B]" "mul_step ?S (ofRows xs) (ofRows ys) i j"
          "\<lambda>r k. Aadd ?S r (Amul ?S (xs ! i ! k) (ys ! k ! j))", OF this]
      show ?thesis by (simp add: productEntry_def eq)
    qed
    have row: "mapE (\<lambda>j. foldlE (mul_step ?S (ofRows xs) (ofRows ys) i j) [0 ..< B] (Azero ?S))
                 [0 ..< C] = Inr (map (\<lambda>j. productEntry ?S xs ys i j) [0 ..< C])"
      if "i < length xs" for i
      using that by (intro mapE_total) (simp add: inner)
    have all: "mapE (\<lambda>i. mapE (\<lambda>j. foldlE (mul_step ?S (ofRows xs) (ofRows ys) i j) [0 ..< B]
                                     (Azero ?S)) [0 ..< C]) [0 ..< length xs]
               = Inr (matrixProduct ?S xs ys C)"
      unfolding matrixProduct_def by (rule mapE_total) (simp add: row)
    have "mul rt a b = newDenseMatrix rt
            (ArrayArg (map (\<lambda>row. Arr (map Scalar row)) (matrixProduct ?S xs ys C))) None"
      using r eq by (simp add: mul_def d la lb lo Let_def all)
    then have m: "mul rt a b = newDenseMatrix rt (ArrayArg (ofRows (matrixProduct ?S xs ys C))) None"
      by (simp only: ofRows_def)
    have pne: "matrixProduct ?S xs ys C \<noteq> []" using ne by (simp add: matrixProduct_def)
    have prow: "\<forall>row\<in>set (matrixProduct ?S xs ys C). length row = C"
      by (auto simp: matrixProduct_def)
    have plen: "length (matrixProduct ?S xs ys C) = length xs" by (simp add: matrixProduct_def)
    from ofRows_shape[OF pne prow C] obtain s where
      sz: "arraySize (Arr (ofRows (matrixProduct ?S xs ys C))) = [int (length xs), int C]"
      and fl: "firstLeaf (Arr (ofRows (matrixProduct ?S xs ys C))) = Scalar s"
      by (auto simp: plen)
    have "newDenseMatrix rt (ArrayArg (ofRows (matrixProduct ?S xs ys C))) None =
        Inr \<lparr>p_data = ofRows (matrixProduct ?S xs ys C), p_size = [int (length xs), int C],
             p_datatype = None,
             scalarArithmetics = (if typeofNumber rt s then numberArithmetics rt
                                  else symArithmetics rt s)\<rparr>"
      by (simp only: newDenseMatrix_array fl sz jsval.case)
    with m show ?thesis by simp
  qed
qed

text \<open>
  If the receiver or the operand is not of rank 2, \<open>a.mul(b)\<close>
  fails with a DimensionError, whatever they hold.  For rank-2 operands holding the
  rows \<open>xs\<close> (each of length \<open>B\<close>) and \<open>ys\<close> (each of length \<open>C\<close>), with at least one row
  each: if the number of rows of \<open>b\<close> differs from \<open>B\<close>, it fails with a DimensionError
  carrying the two numbers; otherwise, if \<open>b\<close> has at least one column, it returns a
  new tensor of shape (rows of \<open>a\<close>) \<open>\<times> C\<close> whose entries are the sums over \<open>k\<close> of
  \<open>a[i][k] * b[k][j]\<close> formed with the receiver's \<open>zero\<close>, \<open>add\<close> and \<open>mul\<close>.
\<close>

lemma mul_product:
  "(length (p_size a) \<noteq> 2
      \<longrightarrow> mul rt a b = Inl (DimensionError (int (length (p_size a))) 2 ''!=''))
   \<and> (length (p_size a) = 2 \<and> length (p_size b) \<noteq> 2
      \<longrightarrow> mul rt a b = Inl (DimensionError (int (length (p_size b))) 2 ''!=''))
   \<and> (length (p_size a') = 2 \<and> length (p_size b') = 2
        \<and> p_data a' = ofRows xs \<and> p_data b' = ofRows ys \<and> xs \<noteq> [] \<and> ys \<noteq> []
        \<and> (\<forall>row\<in>set xs. length row = B) \<and> (\<forall>row\<in>set ys. length row = C)
      \<longrightarrow> (length ys \<noteq> B
             \<longrightarrow> mul rt a' b' = Inl (DimensionError (int (length ys)) (int B) ''!=''))
          \<and> (length ys = B \<and> 0 < C
             \<longrightarrow> (\<exists>m. mul rt a' b' = Inr m \<and> p_size m = [int (length xs), int C]
                    \<and> p_data m = ofRows (matrixProduct (scalarArithmetics a') xs ys C))))"
proof (intro conjI impI)
  assume "length (p_size a) \<noteq> 2"
  then show "mul rt a b = Inl (DimensionError (int (length (p_size a))) 2 ''!='')"
    by (simp add: mul_def)
next
  assume "length (p_size a) = 2 \<and> length (p_size b) \<noteq> 2"
  then show "mul rt a b = Inl (DimensionError (int (length (p_size b))) 2 ''!='')"
    by (simp add: mul_def)
next
  assume h: "length (p_size a') = 2 \<and> length (p_size b') = 2
        \<and> p_data a' = ofRows xs \<and> p_data b' = ofRows ys \<and> xs \<noteq> [] \<and> ys \<noteq> []
        \<and> (\<forall>row\<in>set xs. length row = B) \<and> (\<forall>row\<in>set ys. length row = C)"
    and n: "length ys \<noteq> B"
  from h have "length (p_size a') = 2" "length (p_size b') = 2" "p_data a' = ofRows xs"
    "p_data b' = ofRows ys" "xs \<noteq> []" "ys \<noteq> []" "\<forall>row\<in>set xs. length row = B"
    "\<forall>row\<in>set ys. length row = C"
    by blast+
  from mul_rank2_ofRows(1)[OF this n]
  show "mul rt a' b' = Inl (DimensionError (int (length ys)) (int B) ''!='')" .
next
  assume h: "length (p_size a') = 2 \<and> length (p_size b') = 2
        \<and> p_data a' = ofRows xs \<and> p_data b' = ofRows ys \<and> xs \<noteq> [] \<and> ys \<noteq> []
        \<and> (\<forall>row\<in>set xs. length row = B) \<and> (\<forall>row\<in>set ys. length row = C)"
    and e: "length ys = B \<and> 0 < C"
  from h have "length (p_size a') = 2" "length (p_size b') = 2" "p_data a' = ofRows xs"
    "p_data b' = ofRows ys" "xs \<noteq> []" "ys \<noteq> []" "\<forall>row\<in>set xs. length row = B"
    "\<forall>row\<in>set ys. length row = C"
    by blast+
  from mul_rank2_ofRows(2)[OF this] e
  show "\<exists>m. mul rt a' b' = Inr m \<and> p_size m = [int (length xs), int C]
                    \<and> p_data m = ofRows (matrixProduct (scalarArithmetics a') xs ys C)"
    by blast
qed

lemma mul_product_example:
  "mul numberRuntime vec34 mat1234 = Inl (DimensionError 1 2 ''!='')
   \<and> mul numberRuntime mat1234 vec34 = Inl (DimensionError 1 2 ''!='')
   \<and> mul numberRuntime mat1234 row12 = Inl (DimensionError 1 2 ''!='')
   \<and> (\<exists>m. mul numberRuntime mat1234 mat1234 = Inr m \<and> p_size m = [2, 2]
          \<and> p_data m = [Arr [Scalar (Finite 7), Scalar (Finite (- 10))],
                          Arr [Scalar (Finite (- 15)), Scalar (Finite 22)]])"
proof -
  let ?xs = "[[Finite 1, Finite (- 2)], [Finite (- 3), Finite 4]]"
  let ?ys = "[[Finite 1, Finite 2]]"
  have r1: "length (p_size vec34) \<noteq> 2" by (simp add: vec34_def)
  have r2: "length (p_size mat1234) = 2 \<and> length (p_size vec34) \<noteq> 2"
    by (simp add: vec34_def mat1234_def)
  have h3: "length (p_size mat1234) = 2 \<and> length (p_size row12) = 2
        \<and> p_data mat1234 = ofRows ?xs \<and> p_data row12 = ofRows ?ys \<and> ?xs \<noteq> [] \<and> ?ys \<noteq> []
        \<and> (\<forall>row\<in>set ?xs. length row = 2) \<and> (\<forall>row\<in>set ?ys. length row = 2)"
    by (simp add: mat1234_def row12_def ofRows_def)
  have n3: "length ?ys \<noteq> 2" by simp
  have h4: "length (p_size mat1234) = 2 \<and> length (p_size mat1234) = 2
        \<and> p_data mat1234 = ofRows ?xs \<and> p_data mat1234 = ofRows ?xs \<and> ?xs \<noteq> [] \<and> ?xs \<noteq> []
        \<and> (\<forall>row\<in>set ?xs. length row = 2) \<and> (\<forall>row\<in>set ?xs. length row = 2)"
    by (simp add: mat1234_def ofRows_def)
  have e4: "length ?xs = 2 \<and> (0 :: nat) < 2" by simp
  have a: "mul numberRuntime vec34 mat1234 = Inl (DimensionError 1 2 ''!='')"
    using mul_product[of vec34 numberRuntime mat1234] r1 by (simp add: vec34_def)
  have b: "mul numberRuntime mat1234 vec34 = Inl (DimensionError 1 2 ''!='')"
    using mul_product[of mat1234 numberRuntime vec34] r2 by (simp add: vec34_def)
  have c: "mul numberRuntime mat1234 row12 = Inl (DimensionError 1 2 ''!='')"
    using mul_product[of _ numberRuntime _ mat1234 row12 ?xs ?ys 2 2] h3 n3 by simp
  from mul_product[of _ numberRuntime _ mat1234 mat1234 ?xs ?xs 2 2] h4 e4
  obtain m where m: "mul numberRuntime mat1234 mat1234 = Inr m" "p_size m = [int (length ?xs), 2]"
    "p_data m = ofRows (matrixProduct (scalarArithmetics mat1234) ?xs ?xs 2)"
    by auto
  have "ofRows (matrixProduct (scalarArithmetics mat1234) ?xs ?xs 2)
          = [Arr [Scalar (Finite 7), Scalar (Finite (- 10))],
             Arr [Scalar (Finite (- 15)), Scalar (Finite 22)]]"
    by (simp add: ofRows_def matrixProduct_def productEntry_def mat1234_def
        NumberArithmetics_def upt_rec)
  with m a b c show ?thesis by simp
qed

text \<open>
  Claim C4.  The claim is that \<open>a.mul(b)\<close> fails with a dimension mismatch when the
  number of rows of \<open>b\<close> differs from the number of columns of \<open>a\<close>, and returns the
  product otherwise.  Take \<open>a = [[1, 2]]\<close>, of shape \<open>[1, 2]\<close>.  With the matrix
  \<open>[[1, -2], [-3, 4]]\<close> resized in place to \<open>[0, 2]\<close> as \<open>b\<close>, the operand has no row,
  and \<open>0\<close> differs from \<open>2\<close>; but \<open>mul\<close> reads \<open>b[0].length\<close> before it compares
  \<open>b.length\<close> with \<open>B\<close>, and \<open>b[0]\<close> is \<open>undefined\<close>: the error is a TypeError, not the
  DimensionError of the line after.  With the same matrix resized in place to \<open>[2, 0]\<close>
  the dimensions agree and the product is the matrix of shape \<open>[1, 0]\<close>; the loops
  build \<open>[[]]\<close>, and the constructor that \<open>mul\<close> gives it to throws a TypeError when its
  probe reads a property of the undefined first leaf.  (For an operand with one row,
  \<open>[[1, -2], [-3, 4]].mul([[1, 2]])\<close>, the DimensionError is thrown.)
\<close>

theorem mul_emptied_throws:
  "DenseMatrix_resize numberRuntime mat1234 [0, 2] (Finite 0) False = (emptyRows, Inr emptyRows)
   \<and> p_size row12 = [1, 2] \<and> p_size emptyRows = [0, 2]
   \<and> mul numberRuntime row12 emptyRows
       = Inl (TypeError ''Cannot read properties of undefined'')
   \<and> DenseMatrix_resize numberRuntime mat1234 [2, 0] (Finite 0) False = (zeroCols, Inr zeroCols)
   \<and> p_size zeroCols = [2, 0]
   \<and> mul numberRuntime row12 zeroCols
       = Inl (TypeError ''Cannot read properties of undefined'')
   \<and> mul numberRuntime mat1234 row12 = Inl (DimensionError 1 2 ''!='')"
  by (simp add: DenseMatrix_resize_def resize_def newDenseMatrix_def findScalarArithmetic_def
      numberRuntime_def mat1234_def row12_def emptyRows_def zeroCols_def mul_def
      readLength_def elemAt_def mul_step_def readAt_def asScalar_def upt_rec)

section \<open>Vector norms\<close>

lemma recurse_iter_from_scalars:
  "map fst (recurse_iter_from (map Scalar xs) i index) = map Scalar xs"
  by (induction xs arbitrary: i) simp_all

lemma iterator_scalars:
  "p_data v = map Scalar xs \<Longrightarrow> map fst (iterator v) = map Scalar xs"
  by (simp add: iterator_def recurse_iter_from_scalars)

lemma foldlE_scalars:
  "foldlE (\<lambda>r value. case asScalar value of Inl e \<Rightarrow> Inl e | Inr x \<Rightarrow> Inr (body r x))
          (map Scalar xs) r0 = Inr (foldl body r0 xs)"
  by (induction xs arbitrary: r0) (simp_all add: asScalar_def)

lemma forValues_scalars:
  "p_data v = map Scalar xs \<Longrightarrow> forValues v body r0 = Inr (foldl body r0 xs)"
  by (simp add: forValues_def iterator_scalars foldlE_scalars)

lemma num_abs_not_lt_zero: "\<not> num_lt (num_abs x) (Finite 0)"
  by (cases x) simp_all

lemma min_scan_zero:
  "foldl (\<lambda>r value. if num_lt (num_abs value) r then num_abs value else r) (Finite 0) xs = Finite 0"
  by (induction xs) (simp_all add: num_abs_not_lt_zero)

lemma max_scan_fold:
  "foldl (\<lambda>r value. if num_gt (num_abs value) r then num_abs value else r) (Finite m) (map Finite rs)
     = Finite (fold max (map abs rs) m)"
proof (induction rs arbitrary: m)
  case Nil
  then show ?case by simp
next
  case (Cons a rs)
  show ?case
    using Cons.IH[of "max \<bar>a\<bar> m"]
    by (cases "m < \<bar>a\<bar>") (simp_all add: num_gt_def Let_def max_def)
qed

lemma max_scan_finite:
  "foldl (\<lambda>r value. if num_gt (num_abs value) r then num_abs value else r) (Finite 0) (map Finite rs)
     = Finite (Max (set (0 # map abs rs)))"
  by (simp only: max_scan_fold Max.set_eq_fold)

lemma Max_abs_nonempty:
  fixes rs :: "real list"
  assumes "rs \<noteq> []"
  shows "Max (set (0 # map abs rs)) = Max (abs ` set rs)"
proof -
  have fin: "finite (abs ` set rs)" and ne: "abs ` set rs \<noteq> {}"
    using assms by simp_all
  have "Max (insert 0 (abs ` set rs)) = max 0 (Max (abs ` set rs))"
    using fin ne by (rule Max_insert)
  moreover have "0 \<le> Max (abs ` set rs)"
  proof -
    obtain a where "a \<in> set rs" using assms by (cases rs) auto
    then have "\<bar>a\<bar> \<le> Max (abs ` set rs)" using fin by (intro Max_ge) auto
    then show ?thesis by linarith
  qed
  ultimately show ?thesis by simp
qed

lemma max_scan_zeros:
  "foldl (\<lambda>r value. if num_gt (num_abs value) r then num_abs value else r) (Finite 0)
     (replicate n (Finite 0)) = Finite 0"
  by (induction n) (simp_all add: num_gt_def)

lemma norm_dm_rank1:
  "length (p_size v) = 1 \<Longrightarrow> norm_dm rt v P_inf = vectorNorm_inf v"
  "length (p_size v) = 1 \<Longrightarrow> norm_dm rt v (P PosInfinity) = vectorNorm_inf v"
  "length (p_size v) = 1 \<Longrightarrow> norm_dm rt v P_neg_inf = vectorNorm_neg_inf v"
  "length (p_size v) = 1 \<Longrightarrow> norm_dm rt v (P NegInfinity) = vectorNorm_neg_inf v"
  by (simp_all add: norm_dm_def vectorNorm_def)

lemma min_scan_stays:
  "(\<And>x. \<not> Alt A (Anorm A x) (Azero A)) \<Longrightarrow>
     foldl (\<lambda>r value. if Alt A (Anorm A value) r then Anorm A value else r) (Azero A) xs = Azero A"
  by (induction xs) simp_all

text \<open>
  Claim C9.  For every rank-1 tensor of plain numbers, \<open>norm('-inf')\<close> (and the
  negative-infinity sentinel) returns \<open>0\<close> whatever the elements are: the scan starts
  at the algebra's zero and replaces the running value only by a strictly smaller
  magnitude, and no magnitude is below zero (the first part of the statement says
  this for any Real algebra with that property).  So for a vector with no zero
  element the result is not the least magnitude.
\<close>

theorem vector_norm_neg_inf:
  fixes u :: "'s DenseMatrix" and v :: "number DenseMatrix"
  assumes "length (p_size u) = 1" and "p_data u = map Scalar ys"
    and "symReal (scalarArithmetics u)"
    and "\<forall>x. \<not> Alt (scalarArithmetics u) (Anorm (scalarArithmetics u) x) (Azero (scalarArithmetics u))"
    and "length (p_size v) = 1" and "p_data v = map Scalar xs"
    and "scalarArithmetics v = NumberArithmetics"
  shows "norm_dm ru u P_neg_inf = Inr (Azero (scalarArithmetics u))
         \<and> norm_dm rt v P_neg_inf = Inr (Finite 0)
         \<and> norm_dm rt v (P NegInfinity) = Inr (Finite 0)
         \<and> (xs = map Finite rs \<and> rs \<noteq> [] \<and> 0 \<notin> set rs
              \<longrightarrow> norm_dm rt v P_neg_inf \<noteq> Inr (Finite (Min (abs ` set rs))))"
proof -
  have gen: "norm_dm ru u P_neg_inf = Inr (Azero (scalarArithmetics u))"
    using assms(1-4)
    by (simp add: norm_dm_rank1 vectorNorm_neg_inf_def forValues_scalars Let_def min_scan_stays)
  have res: "norm_dm rt v P_neg_inf = Inr (Finite 0)"
       "norm_dm rt v (P NegInfinity) = Inr (Finite 0)"
    using assms(5-7)
    by (simp_all add: norm_dm_rank1 vectorNorm_neg_inf_def forValues_scalars
        NumberArithmetics_def Let_def min_scan_zero)
  have pos: "0 < Min (abs ` set rs)" if "rs \<noteq> []" and "0 \<notin> set rs"
  proof -
    have "finite (abs ` set rs)" and "abs ` set rs \<noteq> {}" using that by simp_all
    moreover have "\<forall>a\<in>abs ` set rs. 0 < a" using that by auto
    ultimately show ?thesis using Min_gr_iff[of "abs ` set rs" 0] by blast
  qed
  have "norm_dm rt v P_neg_inf \<noteq> Inr (Finite (Min (abs ` set rs)))"
    if "rs \<noteq> []" and "0 \<notin> set rs"
    using pos[OF that] res(1) by simp
  with gen res show ?thesis by blast
qed

text \<open>
  Claim C8.  For every rank-1 tensor \<open>v\<close> with elements \<open>xs\<close>, \<open>norm('inf')\<close> fails with
  the unsupported-arithmetic error naming \<open>Real\<close> unless the algebra has the Real
  capability, and otherwise returns the result of the scan that starts from the
  algebra's zero and replaces the running value only by a strictly greater magnitude;
  the positive-infinity sentinel behaves the same.  For finite numbers \<open>rs\<close> the result
  is the greatest magnitude among them, and it is zero for the empty vector and for an
  all-zero vector of any length.
\<close>

theorem vector_norm_inf:
  fixes v :: "'s DenseMatrix" and w z :: "number DenseMatrix"
  assumes "length (p_size v) = 1" and "p_data v = map Scalar xs"
    and "length (p_size w) = 1" and "p_data w = map Scalar (map Finite rs)"
    and "scalarArithmetics w = NumberArithmetics"
    and "length (p_size z) = 1" and "p_data z = replicate n (Scalar (Finite 0))"
    and "scalarArithmetics z = NumberArithmetics"
  shows "norm_dm rt v P_inf =
           (if symReal (scalarArithmetics v)
            then Inr (foldl (\<lambda>r value. if Agt (scalarArithmetics v) (Anorm (scalarArithmetics v) value) r
                                        then Anorm (scalarArithmetics v) value else r)
                        (Azero (scalarArithmetics v)) xs)
            else Inl (ArithmeticError ''Real''))
         \<and> norm_dm rt v (P PosInfinity) = norm_dm rt v P_inf
         \<and> norm_dm rn w P_inf = Inr (Finite (if rs = [] then 0 else Max (abs ` set rs)))
         \<and> norm_dm rn w (P PosInfinity) = norm_dm rn w P_inf
         \<and> norm_dm rn z P_inf = Inr (Finite 0)"
proof -
  have gen: "norm_dm rt v P_inf =
           (if symReal (scalarArithmetics v)
            then Inr (foldl (\<lambda>r value. if Agt (scalarArithmetics v) (Anorm (scalarArithmetics v) value) r
                                        then Anorm (scalarArithmetics v) value else r)
                        (Azero (scalarArithmetics v)) xs)
            else Inl (ArithmeticError ''Real''))"
    using assms(1,2) by (simp add: norm_dm_rank1 vectorNorm_inf_def forValues_scalars Let_def)
  have sent: "norm_dm rt v (P PosInfinity) = norm_dm rt v P_inf"
    using assms(1) by (simp add: norm_dm_rank1)
  have fw: "\<And>body r0. forValues w body r0 = Inr (foldl body r0 (map Finite rs))"
    using assms(4) by (rule forValues_scalars)
  have "vectorNorm_inf w = Inr (Finite (Max (set (0 # map abs rs))))"
    by (simp only: vectorNorm_inf_def Let_def fw assms(5) NumberArithmetics_def
        arithmetics.simps max_scan_finite simp_thms if_True if_False)
  then have "norm_dm rn w P_inf = Inr (Finite (Max (set (0 # map abs rs))))"
    using assms(3) by (simp only: norm_dm_rank1)
  then have num: "norm_dm rn w P_inf = Inr (Finite (if rs = [] then 0 else Max (abs ` set rs)))"
    using Max_abs_nonempty[of rs] by (cases "rs = []") simp_all
  have sentw: "norm_dm rn w (P PosInfinity) = norm_dm rn w P_inf"
    using assms(3) by (simp add: norm_dm_rank1)
  have "p_data z = map Scalar (replicate n (Finite 0))" using assms(7) by simp
  then have fz: "\<And>body r0. forValues z body r0 = Inr (foldl body r0 (replicate n (Finite 0)))"
    by (rule forValues_scalars)
  have "vectorNorm_inf z = Inr (Finite 0)"
    by (simp only: vectorNorm_inf_def Let_def fz assms(8) NumberArithmetics_def
        arithmetics.simps max_scan_zeros simp_thms if_True if_False)
  then have zero: "norm_dm rn z P_inf = Inr (Finite 0)"
    using assms(6) by (simp only: norm_dm_rank1)
  from gen sent num sentw zero show ?thesis by blast
qed

theorem vector_norm_neg_inf_witness:
  "norm_dm numberRuntime vec34 P_neg_inf = Inr (Finite 0)
   \<and> norm_dm numberRuntime vec34 (P NegInfinity) = Inr (Finite 0)
   \<and> Min (abs ` set [3, - 4 :: real]) = 3
   \<and> norm_dm numberRuntime vec34 P_neg_inf \<noteq> Inr (Finite (Min (abs ` set [3, - 4])))"
proof -
  have h: "length (p_size vec34) = 1" "p_data vec34 = map Scalar [Finite 3, Finite (- 4)]"
      "symReal (scalarArithmetics vec34)"
      "\<forall>x. \<not> Alt (scalarArithmetics vec34) (Anorm (scalarArithmetics vec34) x)
                  (Azero (scalarArithmetics vec34))"
      "length (p_size vec34) = 1" "p_data vec34 = map Scalar [Finite 3, Finite (- 4)]"
      "scalarArithmetics vec34 = NumberArithmetics"
    by (simp_all add: vec34_def NumberArithmetics_def num_abs_not_lt_zero)
  have g: "[Finite 3, Finite (- 4)] = map Finite [3, - 4] \<and> [3, - 4 :: real] \<noteq> []
      \<and> (0 :: real) \<notin> set [3, - 4]"
    by simp
  have m: "Min (abs ` set [3, - 4 :: real]) = 3" by simp
  note T = vector_norm_neg_inf[OF h, of numberRuntime numberRuntime "[3, - 4]"]
  from T have a: "norm_dm numberRuntime vec34 P_neg_inf = Inr (Finite 0)"
    and b: "norm_dm numberRuntime vec34 (P NegInfinity) = Inr (Finite 0)"
    by blast+
  from T g have "norm_dm numberRuntime vec34 P_neg_inf \<noteq> Inr (Finite (Min (abs ` set [3, - 4])))"
    by blast
  with a b m show ?thesis by blast
qed


theorem vector_norm_inf_witness:
  "norm_dm numberRuntime vec34 P_inf = Inr (Finite 4)
   \<and> norm_dm numberRuntime vec34 (P PosInfinity) = Inr (Finite 4)
   \<and> norm_dm numberRuntime (vec34\<lparr>scalarArithmetics := NumberArithmetics\<lparr>symReal := False\<rparr>\<rparr>) P_inf
       = Inl (ArithmeticError ''Real'')
   \<and> norm_dm numberRuntime vec00 P_inf = Inr (Finite 0)"
proof -
  let ?u = "vec34\<lparr>scalarArithmetics := NumberArithmetics\<lparr>symReal := False\<rparr>\<rparr>"
  have hv: "length (p_size vec34) = 1" "p_data vec34 = map Scalar [Finite 3, Finite (- 4)]"
    by (simp_all add: vec34_def)
  have hu: "length (p_size ?u) = 1" "p_data ?u = map Scalar [Finite 3, Finite (- 4)]"
    by (simp_all add: vec34_def)
  have hw: "length (p_size vec34) = 1" "p_data vec34 = map Scalar (map Finite [3, - 4])"
      "scalarArithmetics vec34 = NumberArithmetics"
    by (simp_all add: vec34_def)
  have hz: "length (p_size vec00) = 1" "p_data vec00 = replicate 2 (Scalar (Finite 0))"
      "scalarArithmetics vec00 = NumberArithmetics"
    by (simp_all add: vec00_def numeral_2_eq_2)
  have nr: "\<not> symReal (scalarArithmetics ?u)" by (simp add: NumberArithmetics_def)
  note T = vector_norm_inf[OF hv hw hz, of numberRuntime numberRuntime]
  note U = vector_norm_inf[OF hu hw hz, of numberRuntime numberRuntime]
  have a: "norm_dm numberRuntime vec34 P_inf = Inr (Finite (Max (abs ` set [3, - 4])))"
    using T[THEN conjunct2, THEN conjunct2, THEN conjunct1] by simp
  have b: "norm_dm numberRuntime vec34 (P PosInfinity) = norm_dm numberRuntime vec34 P_inf"
    using T[THEN conjunct2, THEN conjunct1] .
  have c: "norm_dm numberRuntime vec00 P_inf = Inr (Finite 0)"
    using T[THEN conjunct2, THEN conjunct2, THEN conjunct2, THEN conjunct2] .
  have d: "norm_dm numberRuntime ?u P_inf = Inl (ArithmeticError ''Real'')"
    using U[THEN conjunct1] nr by simp
  have "Max (abs ` set [3, - 4 :: real]) = 4" by simp
  with a b c d show ?thesis by simp
qed

section \<open>Matrix norms\<close>

lemma fiberSum_throws:
  assumes "allScalars (Arr (p_data col))" and "firstLeaf (Arr (p_data col)) \<noteq> Undefined"
  shows "fiberSum rt A col = Inl (TypeError ''col.map(...).reduce is not a function'')"
proof -
  from map_dm_scalars[of "\<lambda>value index. case asScalar value of Inl e \<Rightarrow> Inl e
                             | Inr x \<Rightarrow> Inr (Scalar (Anorm A x))" "Anorm A" col rt, OF _ assms]
  obtain m where "map_dm rt col (\<lambda>value index. case asScalar value of Inl e \<Rightarrow> Inl e
                             | Inr x \<Rightarrow> Inr (Scalar (Anorm A x))) = Inr m"
    by (auto simp: asScalar_def)
  then show ?thesis by (simp add: fiberSum_def DenseMatrix_reduce_def)
qed

lemma largestSum_throws:
  assumes "fibers \<noteq> []"
    and "allScalars (Arr (p_data (hd fibers)))"
    and "firstLeaf (Arr (p_data (hd fibers))) \<noteq> Undefined"
  shows "largestSum rt A fibers = Inl (TypeError ''col.map(...).reduce is not a function'')"
proof -
  from assms(1) obtain col rest where f: "fibers = col # rest" by (cases fibers) auto
  with assms(2,3) have "fiberSum rt A col = Inl (TypeError ''col.map(...).reduce is not a function'')"
    by (intro fiberSum_throws) simp_all
  then show ?thesis by (simp add: largestSum_def f)
qed

lemma newDenseMatrix_scalar_array:
  assumes "firstLeaf (Arr d) = Scalar s"
  shows "\<exists>m. newDenseMatrix rt (ArrayArg d) None = Inr m \<and> p_data m = d"
  using assms by (simp add: newDenseMatrix_array)

lemma mapE_success:
  "(\<And>z. z \<in> set zs \<Longrightarrow> \<exists>y. f z = Inr y \<and> Q z y) \<Longrightarrow>
     \<exists>ys. mapE f zs = Inr ys \<and> list_all2 Q zs ys"
proof (induction zs)
  case Nil
  then show ?case by simp
next
  case (Cons z zs)
  from Cons.prems[of z] obtain y where y: "f z = Inr y" "Q z y" by auto
  from Cons.IH Cons.prems obtain ys where ys: "mapE f zs = Inr ys" "list_all2 Q zs ys"
    by (metis list.set_intros(2))
  from y ys show ?case by simp
qed

lemma rows_ofRows:
  assumes "length (p_size M) = 2" and "p_data M = ofRows xs" and "xs \<noteq> []"
    and "\<forall>row\<in>set xs. length row = B" and "0 < B"
  shows "\<exists>rs. rows rt M = Inr rs \<and> rs \<noteq> [] \<and> p_data (hd rs) = [Arr (map Scalar (hd xs))]"
proof -
  have "\<exists>y. newDenseMatrix rt (ArrayArg [z]) None = Inr y \<and> p_data y = [z]"
    if "z \<in> set (ofRows xs)" for z
  proof -
    from that obtain row where "row \<in> set xs" and z: "z = Arr (map Scalar row)"
      by (auto simp: ofRows_def)
    with assms(4,5) obtain x rest where "row = x # rest" by (cases row) auto
    with z have "firstLeaf (Arr [z]) = Scalar x" by simp
    from newDenseMatrix_scalar_array[OF this] show ?thesis .
  qed
  from mapE_success[of "ofRows xs" "\<lambda>row. newDenseMatrix rt (ArrayArg [row]) None"
      "\<lambda>z y. p_data y = [z]", OF this]
  obtain rs where rs: "mapE (\<lambda>row. newDenseMatrix rt (ArrayArg [row]) None) (ofRows xs) = Inr rs"
    and l: "list_all2 (\<lambda>z y. p_data y = [z]) (ofRows xs) rs"
    by blast
  from assms(3) obtain x0 xr where xs: "xs = x0 # xr" by (cases xs) auto
  with l obtain r0 rr where "rs = r0 # rr" and "p_data r0 = [Arr (map Scalar x0)]"
    by (cases rs) (auto simp: ofRows_def)
  with rs assms(1,2) xs show ?thesis by (simp add: rows_def)
qed

lemma columns_ofRows:
  assumes "length (p_size M) = 2" and "p_size M ! 1 = int B" and "p_data M = ofRows xs"
    and "xs \<noteq> []" and "\<forall>row\<in>set xs. length row = B" and "0 < B"
  shows "\<exists>cs. columns rt M = Inr cs \<and> cs \<noteq> []
           \<and> p_data (hd cs) = map (\<lambda>row. Arr [Scalar (row ! 0)]) xs"
proof -
  have col: "mapE (\<lambda>row. case readAt row (int i) of Inl e \<Rightarrow> Inl e | Inr x \<Rightarrow> Inr (Arr [x]))
               (ofRows xs) = Inr (map (\<lambda>row. Arr [Scalar (row ! i)]) xs)"
    if "i < B" for i
    using that assms(5)
    by (induction xs) (simp_all add: ofRows_def readAt_def elemAt_def)
  have "\<exists>y. (case mapE (\<lambda>row. case readAt row (int i) of Inl e \<Rightarrow> Inl e
                            | Inr x \<Rightarrow> Inr (Arr [x])) (ofRows xs) of
               Inl e \<Rightarrow> Inl e
             | Inr c \<Rightarrow> newDenseMatrix rt (ArrayArg c) None) = Inr y
           \<and> p_data y = map (\<lambda>row. Arr [Scalar (row ! i)]) xs"
    if "i \<in> set [0 ..< B]" for i
  proof -
    from that have i: "i < B" by simp
    from assms(4) obtain x0 xr where "xs = x0 # xr" by (cases xs) auto
    then have "firstLeaf (Arr (map (\<lambda>row. Arr [Scalar (row ! i)]) xs)) = Scalar (x0 ! i)"
      by simp
    from newDenseMatrix_scalar_array[OF this, of rt] show ?thesis
      by (simp add: col[OF i])
  qed
  from mapE_success[of "[0 ..< B]" _ "\<lambda>i y. p_data y = map (\<lambda>row. Arr [Scalar (row ! i)]) xs",
      OF this]
  obtain cs where cs: "mapE (\<lambda>i. case mapE (\<lambda>row. case readAt row (int i) of Inl e \<Rightarrow> Inl e
                            | Inr x \<Rightarrow> Inr (Arr [x])) (ofRows xs) of
               Inl e \<Rightarrow> Inl e
             | Inr c \<Rightarrow> newDenseMatrix rt (ArrayArg c) None) [0 ..< B] = Inr cs"
    and l: "list_all2 (\<lambda>i y. p_data y = map (\<lambda>row. Arr [Scalar (row ! i)]) xs) [0 ..< B] cs"
    by blast
  from assms(6) have "[0 ..< B] = 0 # [1 ..< B]" by (simp add: upt_rec)
  with l obtain c0 cr where "cs = c0 # cr"
    and "p_data c0 = map (\<lambda>row. Arr [Scalar (row ! 0)]) xs"
    by (cases cs) auto
  with cs assms(1,2,3) show ?thesis by (simp add: columns_def)
qed

text \<open>
  Claim C1.  The claim is that, for a rank-2 matrix of numbers, \<open>norm(1)\<close> is the largest
  column sum of magnitudes and \<open>norm('inf')\<close> the largest row sum (\<open>6\<close> and \<open>7\<close> for
  \<open>[[1, -2], [-3, 4]]\<close>).  What the code does for every rank-2 matrix with at least one
  row and one column whose algebra has the Real capability: both calls (and the
  positive-infinity sentinel) throw a TypeError, because the column (or row) is a
  DenseMatrix, its \<open>map\<close> returns a DenseMatrix, and a DenseMatrix has no \<open>reduce\<close>.
\<close>

theorem matrix_norm_throws:
  assumes "length (p_size M) = 2" and "p_size M ! 1 = int B" and "p_data M = ofRows xs"
    and "xs \<noteq> []" and "\<forall>row\<in>set xs. length row = B" and "0 < B"
    and "symReal (scalarArithmetics M)"
  shows "norm_dm rt M (P (Finite 1)) = Inl (TypeError ''col.map(...).reduce is not a function'')
       \<and> norm_dm rt M P_inf = Inl (TypeError ''col.map(...).reduce is not a function'')
       \<and> norm_dm rt M (P PosInfinity) = Inl (TypeError ''col.map(...).reduce is not a function'')"
proof -
  from columns_ofRows[OF assms(1-6), of rt] obtain cs where
    cs: "columns rt M = Inr cs" "cs \<noteq> []"
        "p_data (hd cs) = map (\<lambda>row. Arr [Scalar (row ! 0)]) xs"
    by blast
  from assms(4) cs(3) have "allScalars (Arr (p_data (hd cs)))"
    and "firstLeaf (Arr (p_data (hd cs))) \<noteq> Undefined"
    by (cases xs; simp)+
  from largestSum_throws[OF cs(2) this]
  have c: "largestSum rt (scalarArithmetics M) cs
             = Inl (TypeError ''col.map(...).reduce is not a function'')" .
  from rows_ofRows[OF assms(1,3,4,5,6), of rt] obtain rs where
    rs: "rows rt M = Inr rs" "rs \<noteq> []" "p_data (hd rs) = [Arr (map Scalar (hd xs))]"
    by blast
  from assms(4,5,6) rs(3) have "allScalars (Arr (p_data (hd rs)))"
    and "firstLeaf (Arr (p_data (hd rs))) \<noteq> Undefined"
    by (cases xs; cases "hd xs"; simp)+
  from largestSum_throws[OF rs(2) this]
  have r: "largestSum rt (scalarArithmetics M) rs
             = Inl (TypeError ''col.map(...).reduce is not a function'')" .
  from assms(1,7) cs(1) rs(1) c r show ?thesis
    by (simp add: norm_dm_def matrixNorm_def)
qed

theorem matrix_norm_throws_witness:
  "newDenseMatrix numberRuntime (ArrayArg (p_data mat1234)) None = Inr mat1234
   \<and> norm_dm numberRuntime mat1234 (P (Finite 1))
       = Inl (TypeError ''col.map(...).reduce is not a function'')
   \<and> norm_dm numberRuntime mat1234 P_inf
       = Inl (TypeError ''col.map(...).reduce is not a function'')"
proof -
  let ?xs = "[[Finite 1, Finite (- 2)], [Finite (- 3), Finite 4]]"
  have c: "newDenseMatrix numberRuntime (ArrayArg (p_data mat1234)) None = Inr mat1234"
    by (simp add: newDenseMatrix_def mat1234_def findScalarArithmetic_def numberRuntime_def)
  have h: "length (p_size mat1234) = 2" "p_size mat1234 ! 1 = int 2"
      "p_data mat1234 = ofRows ?xs" "?xs \<noteq> []" "\<forall>row\<in>set ?xs. length row = 2"
      "(0 :: nat) < 2" "symReal (scalarArithmetics mat1234)"
    by (simp_all add: mat1234_def ofRows_def NumberArithmetics_def)
  from matrix_norm_throws[OF h, of numberRuntime] c show ?thesis by blast
qed


end
